theory Spec2Isabelle
  imports Complex_Main
begin

section \<open>Data model\<close>

text \<open>
  The program is a React client (\<^verbatim>\<open>WheelGame.tsx\<close>) on top of a hook
  (\<^verbatim>\<open>useGameDatabase\<close>) that talks to a remote store through \<^verbatim>\<open>dbHelpers\<close>.
  JavaScript numbers are IEEE doubles; they are modelled as exact rationals, so rounding
  is not part of this development. A division whose divisor is zero gives no finite
  number in JavaScript and is modelled as \<open>None\<close>. Timestamps (\<^verbatim>\<open>Date.now()\<close>) and
  random numbers (\<^verbatim>\<open>Math.random()\<close>) are arguments of the functions that read them.
\<close>

record telegram_user =
  tg_id :: nat
  first_name :: string
  username :: "string option"

text \<open>\<^verbatim>\<open>interface Player\<close>. Emoji strings are kept as ASCII names.\<close>

record player =
  player_id :: string
  name :: string
  balance :: rat
  color :: string
  gifts :: "string list"
  giftValue :: rat
  player_telegramUser :: "telegram_user option"

datatype log_type = Join | Spin | Winner | Info

text \<open>
  Log messages are template strings; a message is kept as its template together with the
  interpolated values.
\<close>

datatype log_text =
    JoinedWithBalance string int
  | JoinedWithGifts string rat
  | AddedMoreGifts string rat
  | NeedTwoPlayers
  | WheelSpinning
  | WonGifts string rat
  | HookWon rat

text \<open>\<^verbatim>\<open>interface GameLog\<close>.\<close>

record game_log =
  log_id :: string
  message :: log_text
  timestamp :: nat
  entry_type :: log_type

text \<open>\<^verbatim>\<open>interface MatchHistoryEntry\<close>.\<close>

record match_history_entry =
  entry_id :: string
  entry_rollNumber :: nat
  entry_timestamp :: nat
  entry_players :: "player list"
  entry_winner :: player
  totalPot :: rat
  entry_winnerChance :: "rat option"

datatype rarity = Common | Rare | Epic | Legendary

text \<open>\<^verbatim>\<open>interface Gift\<close> (inventory item).\<close>

record gift =
  gift_id :: string
  emoji :: string
  gift_name :: string
  gift_value :: rat
  gift_rarity :: rarity
  quantity :: int

text \<open>An element of \<^verbatim>\<open>selectedGifts\<close>: \<^verbatim>\<open>{ id, quantity }\<close>.\<close>

record selected_gift =
  selected_id :: string
  selected_quantity :: int

text \<open>An element of \<^verbatim>\<open>giftSelections\<close>: \<^verbatim>\<open>{ giftId, quantity, totalValue }\<close>.\<close>

record gift_selection =
  giftId :: string
  selection_quantity :: int
  selection_totalValue :: rat

section \<open>The fixed palette\<close>

definition COLORS :: "string list" where
  "COLORS =
    [''#FF6B6B'', ''#4ECDC4'', ''#45B7D1'', ''#96CEB4'', ''#FFEAA7'',
     ''#DDA0DD'', ''#98D8C8'', ''#F7DC6F'', ''#BB8FCE'', ''#85C1E9'',
     ''#F8C471'', ''#82E0AA'', ''#F1948A'', ''#85929E'', ''#D7BDE2'']"

section \<open>The stake-weighted draw (spinWheel, the lines between the two awaits and the timeout)\<close>

text \<open>\<^verbatim>\<open>const playerValue = player.balance + player.giftValue\<close>\<close>

definition playerValue :: "player \<Rightarrow> rat" where
  "playerValue p = balance p + giftValue p"

text \<open>\<^verbatim>\<open>activePlayers.reduce((sum, player) => sum + player.balance + player.giftValue, 0)\<close>\<close>

definition totalValue :: "player list \<Rightarrow> rat" where
  "totalValue ps = foldl (\<lambda>sum p. sum + balance p + giftValue p) 0 ps"

text \<open>
  The \<^verbatim>\<open>for (const player of activePlayers)\<close> loop: \<open>currentSum\<close> is the running sum
  before the player at the head of the list, the result is \<^verbatim>\<open>selectedWinner\<close>
  (\<open>None\<close> for \<^verbatim>\<open>null\<close>).
\<close>

fun selectedWinner :: "rat \<Rightarrow> rat \<Rightarrow> player list \<Rightarrow> player option" where
  "selectedWinner randomValue currentSum [] = None"
| "selectedWinner randomValue currentSum (p # ps) =
     (if randomValue \<le> currentSum + playerValue p then Some p
      else selectedWinner randomValue (currentSum + playerValue p) ps)"

text \<open>
  \<^verbatim>\<open>const winnerChance = (playerValue / totalValue) * 100\<close>: a percentage. With
  \<^verbatim>\<open>totalValue\<close> zero the JavaScript value is NaN or an infinity.
\<close>

definition winnerChance :: "rat \<Rightarrow> rat \<Rightarrow> rat option" where
  "winnerChance pv tv = (if tv = 0 then None else Some (pv / tv * 100))"

section \<open>JavaScript helpers\<close>

text \<open>\<^verbatim>\<open>String.prototype.trim\<close>, on the ASCII white space characters.\<close>

definition is_whitespace :: "char \<Rightarrow> bool" where
  "is_whitespace c =
     (c = CHR '' '' \<or> c = CHR 0x09 \<or> c = CHR 0x0A \<or> c = CHR 0x0B \<or> c = CHR 0x0C \<or> c = CHR 0x0D)"

definition trim :: "string \<Rightarrow> string" where
  "trim s = rev (dropWhile is_whitespace (rev (dropWhile is_whitespace s)))"

text \<open>\<^verbatim>\<open>Number.prototype.toString\<close> on a non-negative integer (decimal digits).\<close>

definition digit_char :: "nat \<Rightarrow> char" where
  "digit_char d = ''0123456789'' ! d"

function toString :: "nat \<Rightarrow> string" where
  "toString n = (if n < 10 then [digit_char n] else toString (n div 10) @ [digit_char (n mod 10)])"
  by pat_completeness auto
termination
  by (relation "measure (\<lambda>n. n)") auto

declare toString.simps [simp del]

text \<open>
  Truthiness of a \<^verbatim>\<open>string | null\<close> value, as in \<^verbatim>\<open>if (currentGameId)\<close>: \<^verbatim>\<open>null\<close>
  and the empty string are falsy.
\<close>

fun truthy :: "string option \<Rightarrow> bool" where
  "truthy None = False"
| "truthy (Some s) = (s \<noteq> [])"

section \<open>The boundary with the remote store\<close>

text \<open>
  \<^verbatim>\<open>dbHelpers\<close> (\<^verbatim>\<open>lib/supabase\<close>) is not among the source files. What one of its
  calls answers is an argument of the function that awaits it: the call resolves with
  data, resolves with an error object (carrying its \<^verbatim>\<open>message\<close>), or rejects (carrying
  the text of \<^verbatim>\<open>err instanceof Error ? err.message : 'Unknown error'\<close>).
\<close>

datatype 'a db_result = DbData 'a | DbError string | DbThrow string

text \<open>The write calls a client issues to the store, with their arguments.\<close>

datatype db_call =
    JoinGame string string "gift_selection list" string nat
  | UpdatePlayerGifts string string int
  | UpdateGameStatus string string string "rat option" rat nat
  | AddGameLog string "string option" log_type log_text
  | StartGameCountdown string nat
  | CreateGame nat

section \<open>Client state\<close>

text \<open>
  What the timeout callback of \<^verbatim>\<open>spinWheel\<close> reads from the closure that created it.
\<close>

record spin_closure =
  closure_selectedWinner :: "player option"
  closure_activePlayers :: "player list"
  closure_totalValue :: rat
  closure_rollNumber :: nat
  closure_currentGameId :: "string option"
  closure_currentPlayer :: "string option"

text \<open>
  The React state of one client: the \<^verbatim>\<open>useState\<close> cells of \<^verbatim>\<open>WheelGame\<close>, those of
  \<^verbatim>\<open>useGameDatabase\<close> (\<open>currentGameId\<close> to \<open>error\<close>; of \<^verbatim>\<open>currentPlayer\<close> only the
  \<^verbatim>\<open>id\<close> is ever read), the two pending timers of \<^verbatim>\<open>spinWheel\<close>, and the list of write
  calls issued to the store so far (oldest first). Cells that only drive rendering
  (\<^verbatim>\<open>loading\<close>, tabs, pop-ups other than the gift pop-up, the avatar cache) are left out.
\<close>

record client =
  players :: "player list"
  gameLog :: "game_log list"
  isSpinning :: bool
  winner :: "player option"
  showWinnerModal :: bool
  playerName :: string
  playerBalance :: string
  rollNumber :: nat
  matchHistory :: "match_history_entry list"
  userInventory :: "gift list"
  showGiftPopup :: bool
  selectedGifts :: "selected_gift list"
  telegramUser :: "telegram_user option"
  currentGameId :: "string option"
  dbPlayers :: "player list"
  currentPlayer :: "string option"
  gameCountdown :: "int option"
  error :: "string option"
  spinTimeout :: "spin_closure option"
  resetTimeout :: "spin_closure option"
  calls :: "db_call list"

text \<open>The state of a freshly mounted component.\<close>

definition initial_client :: client where
  "initial_client =
     \<lparr>players = [], gameLog = [], isSpinning = False, winner = None, showWinnerModal = False,
      playerName = [], playerBalance = [], rollNumber = 8343, matchHistory = [],
      userInventory = [], showGiftPopup = False, selectedGifts = [], telegramUser = None,
      currentGameId = None, dbPlayers = [], currentPlayer = None, gameCountdown = None,
      error = None, spinTimeout = None, resetTimeout = None, calls = []\<rparr>"

text \<open>
  How a user action that does not go through ends: the \<^verbatim>\<open>alert\<close> shown before
  \<^verbatim>\<open>return\<close> (\<open>NoGiftsSelected\<close> returns with haptic feedback only).
\<close>

datatype rejection =
    InvalidNameOrBalance
  | NameExists
  | MaxPlayers
  | NoGiftsSelected
  | NoPlayerName
  | CreateGameFailed
  | NoGameId

section \<open>useGameDatabase\<close>

text \<open>
  \<^verbatim>\<open>addGameLog\<close>: one call of \<^verbatim>\<open>dbHelpers.addGameLog\<close>; an exception is caught and
  logged to the console.
\<close>

definition addGameLog :: "string \<Rightarrow> string option \<Rightarrow> log_type \<Rightarrow> log_text \<Rightarrow> client \<Rightarrow> client" where
  "addGameLog gameId playerId logType msg s = s\<lparr>calls := calls s @ [AddGameLog gameId playerId logType msg]\<rparr>"

text \<open>
  \<^verbatim>\<open>startGameCountdown\<close>: one call of \<^verbatim>\<open>dbHelpers.startGameCountdown(gameId, 60)\<close>; its
  answer is only logged.
\<close>

definition startGameCountdown :: "string \<Rightarrow> client \<Rightarrow> client" where
  "startGameCountdown gameId s = s\<lparr>calls := calls s @ [StartGameCountdown gameId 60]\<rparr>"

text \<open>
  \<^verbatim>\<open>getCurrentGame(rollNumber)\<close>. \<open>fetched\<close> answers \<^verbatim>\<open>dbHelpers.getCurrentGame()\<close>: the
  waiting game, if any, as its id and its participants (already transformed to
  \<^verbatim>\<open>Player\<close>); \<open>created\<close> answers \<^verbatim>\<open>dbHelpers.createGame(rollNumber)\<close> with the new id.
  The result is the id of the game returned (\<open>None\<close> for \<^verbatim>\<open>null\<close>).
\<close>

definition getCurrentGame ::
  "nat \<Rightarrow> (string \<times> player list) option db_result \<Rightarrow> string db_result \<Rightarrow> client
    \<Rightarrow> string option \<times> client" where
  "getCurrentGame rollNo fetched created s =
     (case fetched of
        DbThrow _ \<Rightarrow> (None, s\<lparr>error := Some ''Failed to get current game''\<rparr>)
      | DbError _ \<Rightarrow> (None, s\<lparr>error := Some ''Failed to load current game''\<rparr>)
      | DbData (Some (gid, participants)) \<Rightarrow>
          (Some gid, s\<lparr>currentGameId := Some gid, dbPlayers := participants\<rparr>)
      | DbData None \<Rightarrow>
          if rollNo > 0 then
            (case created of
               DbThrow _ \<Rightarrow>
                 (None, s\<lparr>calls := calls s @ [CreateGame rollNo],
                           error := Some ''Failed to get current game''\<rparr>)
             | DbError _ \<Rightarrow>
                 (None, s\<lparr>calls := calls s @ [CreateGame rollNo],
                           error := Some ''Failed to create new game''\<rparr>)
             | DbData gid \<Rightarrow>
                 (Some gid, s\<lparr>calls := calls s @ [CreateGame rollNo],
                               currentGameId := Some gid, dbPlayers := []\<rparr>))
          else (None, s))"

text \<open>
  \<^verbatim>\<open>joinGameWithGifts\<close>. \<open>joined\<close> answers \<^verbatim>\<open>dbHelpers.joinGame\<close> with the participant
  row (its id; \<open>None\<close> when the data is empty). The result is \<open>None\<close> for \<^verbatim>\<open>null\<close>. The
  inventory updates that follow a successful join are issued one per selection; an
  exception of one of them is caught. Reloading the inventory only reads.
\<close>

definition joinGameWithGifts ::
  "string \<Rightarrow> string \<Rightarrow> gift_selection list \<Rightarrow> string \<Rightarrow> nat \<Rightarrow> string option db_result \<Rightarrow> client
    \<Rightarrow> string option \<times> client" where
  "joinGameWithGifts gameId playerId giftSelections col positionIndex joined s =
     (if gameId = [] \<or> playerId = [] \<or> giftSelections = [] then
        (None, s\<lparr>error := Some (''Failed to join game: '' @ ''Invalid parameters for joining game'')\<rparr>)
      else
        (case joined of
           DbThrow msg \<Rightarrow>
             (None, s\<lparr>calls := calls s @ [JoinGame gameId playerId giftSelections col positionIndex],
                       error := Some (''Failed to join game: '' @ msg)\<rparr>)
         | DbError msg \<Rightarrow>
             (None, s\<lparr>calls := calls s @ [JoinGame gameId playerId giftSelections col positionIndex],
                       error := Some (''Failed to join game: '' @
                                  (if msg = [] then ''Unknown database error'' else msg))\<rparr>)
         | DbData participant \<Rightarrow>
             (participant,
              s\<lparr>calls := calls s @ [JoinGame gameId playerId giftSelections col positionIndex]
                    @ map (\<lambda>sel. UpdatePlayerGifts playerId (giftId sel) (- selection_quantity sel))
                        giftSelections\<rparr>)))"

text \<open>
  \<^verbatim>\<open>completeGame\<close>. \<open>updated\<close> answers \<^verbatim>\<open>dbHelpers.updateGameStatus\<close>; \<open>logged\<close> is
  false when the \<^verbatim>\<open>dbHelpers.addGameLog\<close> that follows throws. The result is true when
  a completed game is returned.
\<close>

definition completeGame ::
  "string \<Rightarrow> string \<Rightarrow> rat option \<Rightarrow> rat \<Rightarrow> nat \<Rightarrow> unit db_result \<Rightarrow> bool \<Rightarrow> client
    \<Rightarrow> bool \<times> client" where
  "completeGame gameId winnerId chance totalGiftValue now updated logged s =
     (let s1 = s\<lparr>calls := calls s @
                 [UpdateGameStatus gameId ''completed'' winnerId chance totalGiftValue now]\<rparr>
      in case updated of
           DbThrow _ \<Rightarrow> (False, s1\<lparr>error := Some ''Failed to complete game''\<rparr>)
         | DbError _ \<Rightarrow> (False, s1\<lparr>error := Some ''Failed to complete game''\<rparr>)
         | DbData _ \<Rightarrow>
             (let s2 = s1\<lparr>calls := calls s1 @
                          [AddGameLog gameId (Some winnerId) Winner (HookWon totalGiftValue)]\<rparr>
              in if logged then (True, s2)
                 else (False, s2\<lparr>error := Some ''Failed to complete game''\<rparr>)))"

text \<open>
  One tick of the countdown timer effect (\<^verbatim>\<open>setInterval\<close>, every second). The interval
  exists only while a game is known and the store lists two or more participants.
  \<open>answer\<close> is what \<^verbatim>\<open>dbHelpers.getGameCountdown\<close> resolves to: \<^verbatim>\<open>timeLeft\<close>, or an error.
\<close>

definition countdownTick :: "int option db_result \<Rightarrow> client \<Rightarrow> client" where
  "countdownTick answer s =
     (if truthy (currentGameId s) \<and> length (dbPlayers s) \<ge> 2 then
        (case answer of
           DbData timeLeft \<Rightarrow>
             (case timeLeft of
                None \<Rightarrow> s\<lparr>gameCountdown := None\<rparr>
              | Some t \<Rightarrow> if t \<le> 0 then s\<lparr>gameCountdown := Some 0\<rparr>
                          else s\<lparr>gameCountdown := Some t\<rparr>)
         | DbError _ \<Rightarrow> s
         | DbThrow _ \<Rightarrow> s)
      else s)"

section \<open>WheelGame: the log\<close>

text \<open>
  \<^verbatim>\<open>addToLog\<close>: the entry \<^verbatim>\<open>newLog\<close> it builds, and
  \<^verbatim>\<open>setGameLog((prev) => [newLog, ...prev.slice(0, 19)])\<close>. The newest entry is first.
\<close>

definition newLog :: "nat \<Rightarrow> log_text \<Rightarrow> log_type \<Rightarrow> game_log" where
  "newLog now msg ty = \<lparr>log_id = toString now, message = msg, timestamp = now, entry_type = ty\<rparr>"

definition addToLog :: "nat \<Rightarrow> log_text \<Rightarrow> log_type \<Rightarrow> client \<Rightarrow> client" where
  "addToLog now msg ty s = s\<lparr>gameLog := newLog now msg ty # take 19 (gameLog s)\<rparr>"

section \<open>WheelGame: joining\<close>

text \<open>
  \<^verbatim>\<open>addPlayer\<close> of \<^verbatim>\<open>WheelGame.tsx\<close>. \<open>parseInt\<close> is \<^verbatim>\<open>Number.parseInt\<close> (\<open>None\<close> for
  NaN); \<open>r1\<close> and \<open>r2\<close> are the two values of \<^verbatim>\<open>Math.random()\<close>. The result says which
  \<^verbatim>\<open>alert\<close> ended the call, if one did.
\<close>

definition addPlayer ::
  "(string \<Rightarrow> int option) \<Rightarrow> nat \<Rightarrow> rat \<Rightarrow> rat \<Rightarrow> client \<Rightarrow> rejection option \<times> client" where
  "addPlayer parseInt now r1 r2 s =
     (case parseInt (playerBalance s) of
        None \<Rightarrow> (Some InvalidNameOrBalance, s)
      | Some bal \<Rightarrow>
          if trim (playerName s) = [] \<or> bal = 0 \<or> bal < 1 \<or> bal > 10000 then
            (Some InvalidNameOrBalance, s)
          else if list_ex (\<lambda>p. name p = trim (playerName s)) (players s) then (Some NameExists, s)
          else if length (players s) \<ge> 15 then (Some MaxPlayers, s)
          else
            (let newPlayer =
                   \<lparr>player_id = toString now, name = trim (playerName s), balance = of_int bal,
                    color = COLORS ! (length (players s) mod length COLORS),
                    gifts = take (nat \<lfloor>r1 * 3\<rfloor> + 1) [''gift'', ''gem'', ''star''],
                    giftValue = r2 * (1 / 2) + 1 / 10, player_telegramUser = None\<rparr>
             in (None,
                 (addToLog now (JoinedWithBalance (trim (playerName s)) bal) Join
                    (s\<lparr>players := players s @ [newPlayer]\<rparr>))
                 \<lparr>playerName := [], playerBalance := []\<rparr>)))"

text \<open>
  \<^verbatim>\<open>addPlayer\<close> of the other revision of the component (the one that starts the
  countdown): the same text, followed by
  \<^verbatim>\<open>if (players.length === 1 && currentGameId) startGameCountdown(currentGameId)\<close>,
  where \<^verbatim>\<open>players\<close> and \<^verbatim>\<open>currentGameId\<close> are the values the call started with.
\<close>

definition addPlayer_countdown ::
  "(string \<Rightarrow> int option) \<Rightarrow> nat \<Rightarrow> rat \<Rightarrow> rat \<Rightarrow> client \<Rightarrow> rejection option \<times> client" where
  "addPlayer_countdown parseInt now r1 r2 s =
     (case addPlayer parseInt now r1 r2 s of
        (Some r, s1) \<Rightarrow> (Some r, s1)
      | (None, s1) \<Rightarrow>
          (case currentGameId s of
             Some g \<Rightarrow>
               if length (players s) = 1 \<and> g \<noteq> [] then (None, startGameCountdown g s1)
               else (None, s1)
           | None \<Rightarrow> (None, s1)))"

text \<open>
  The name \<^verbatim>\<open>confirmGiftSelection\<close> joins under:
  \<^verbatim>\<open>telegramUser.username || telegramUser.first_name || `User${telegramUser.id}`\<close>, or
  the trimmed name field when there is no Telegram user.
\<close>

definition displayName :: "client \<Rightarrow> string" where
  "displayName s =
     (case telegramUser s of
        None \<Rightarrow> trim (playerName s)
      | Some u \<Rightarrow>
          (if truthy (username u) then (case username u of Some n \<Rightarrow> n | None \<Rightarrow> [])
           else if first_name u \<noteq> [] then first_name u
           else ''User'' @ toString (tg_id u)))"

text \<open>
  The \<^verbatim>\<open>selectedGifts.forEach\<close> of \<^verbatim>\<open>confirmGiftSelection\<close>: the emojis, the total
  value and the selections sent to the store.
\<close>

definition giftTotals ::
  "gift list \<Rightarrow> selected_gift list \<Rightarrow> string list \<times> rat \<times> gift_selection list" where
  "giftTotals inventory selected =
     foldl (\<lambda>(emojis, total, sels) sel.
              (case find (\<lambda>g. gift_id g = selected_id sel) inventory of
                 None \<Rightarrow> (emojis, total, sels)
               | Some g \<Rightarrow>
                   (emojis @ replicate (nat (selected_quantity sel)) (emoji g),
                    total + gift_value g * of_int (selected_quantity sel),
                    sels @ [\<lparr>giftId = gift_id g, selection_quantity = selected_quantity sel,
                             selection_totalValue = gift_value g * of_int (selected_quantity sel)\<rparr>])))
       ([], 0, []) selected"

text \<open>
  The block \<^verbatim>\<open>// Database integration: Join game with gifts\<close> of
  \<^verbatim>\<open>confirmGiftSelection\<close>. \<open>s\<close> is the state the call started with.
\<close>

definition joinThroughStore ::
  "(string \<times> player list) option db_result \<Rightarrow> string db_result \<Rightarrow> string option db_result
    \<Rightarrow> gift_selection list \<Rightarrow> rat \<Rightarrow> client \<Rightarrow> rejection option \<times> client" where
  "joinThroughStore fetched created joined giftSelections totalGiftValue s =
     (case currentPlayer s of
        None \<Rightarrow> (None, s)
      | Some cp \<Rightarrow>
          (case (if truthy (currentGameId s) then (currentGameId s, s)
                 else getCurrentGame (rollNumber s) fetched created s) of
             (None, s1) \<Rightarrow> (Some CreateGameFailed, s1)
           | (Some gameId, s1) \<Rightarrow>
               if gameId = [] then (Some NoGameId, s1)
               else
                 (case joinGameWithGifts gameId cp giftSelections
                         (COLORS ! (length (players s) mod length COLORS)) (length (players s))
                         joined s1 of
                    (Some participant, s2) \<Rightarrow>
                      (None, addGameLog gameId (Some cp) Join
                               (JoinedWithGifts (displayName s) totalGiftValue) s2)
                  | (None, s2) \<Rightarrow> (None, s2))))"

text \<open>
  The block \<^verbatim>\<open>// Local game logic (always run for immediate UI feedback)\<close> and the
  inventory update after it. \<open>s\<close> is the state the call started with (what the closure
  reads), \<open>s1\<close> the state the functional updates apply to.
\<close>

definition joinLocally :: "nat \<Rightarrow> string list \<Rightarrow> rat \<Rightarrow> client \<Rightarrow> client \<Rightarrow> client" where
  "joinLocally now selectedGiftEmojis totalGiftValue s s1 =
     (let s2 =
        (case find (\<lambda>p. name p = displayName s) (players s) of
           Some existingPlayer \<Rightarrow>
             addToLog now (AddedMoreGifts (displayName s) totalGiftValue) Join
               (s1\<lparr>players :=
                     map (\<lambda>p. if name p = displayName s
                               then p\<lparr>gifts := gifts p @ selectedGiftEmojis,
                                      giftValue := giftValue p + totalGiftValue\<rparr>
                               else p) (players s1)\<rparr>)
         | None \<Rightarrow>
             (let newPlayer =
                    \<lparr>player_id = toString now, name = displayName s, balance = 0,
                     color = COLORS ! (length (players s) mod length COLORS),
                     gifts = selectedGiftEmojis, giftValue = totalGiftValue,
                     player_telegramUser = telegramUser s\<rparr>;
                  s3 = addToLog now (JoinedWithGifts (displayName s) totalGiftValue) Join
                         (s1\<lparr>players := players s1 @ [newPlayer]\<rparr>)
              in (case currentGameId s of
                    Some g \<Rightarrow> if length (players s) = 1 \<and> g \<noteq> [] then startGameCountdown g s3 else s3
                  | None \<Rightarrow> s3)))
      in s2\<lparr>userInventory :=
               map (\<lambda>g. case find (\<lambda>sel. selected_id sel = gift_id g) (selectedGifts s) of
                          Some sel \<Rightarrow> g\<lparr>quantity := quantity g - selected_quantity sel\<rparr>
                        | None \<Rightarrow> g) (userInventory s2),
             selectedGifts := [], showGiftPopup := False\<rparr>)"

text \<open>
  \<^verbatim>\<open>confirmGiftSelection\<close> (the complete text, of the revision that starts the
  countdown). The three answers are those of the store calls it may await.
\<close>

definition confirmGiftSelection ::
  "nat \<Rightarrow> (string \<times> player list) option db_result \<Rightarrow> string db_result \<Rightarrow> string option db_result
    \<Rightarrow> client \<Rightarrow> rejection option \<times> client" where
  "confirmGiftSelection now fetched created joined s =
     (if selectedGifts s = [] then (Some NoGiftsSelected, s)
      else if displayName s = [] then (Some NoPlayerName, s)
      else if length (players s) \<ge> 15 then (Some MaxPlayers, s)
      else
        (case giftTotals (userInventory s) (selectedGifts s) of
           (selectedGiftEmojis, totalGiftValue, giftSelections) \<Rightarrow>
             (case joinThroughStore fetched created joined giftSelections totalGiftValue s of
                (Some r, s1) \<Rightarrow> (Some r, s1)
              | (None, s1) \<Rightarrow> (None, joinLocally now selectedGiftEmojis totalGiftValue s s1))))"

section \<open>WheelGame: spinning\<close>

text \<open>\<^verbatim>\<open>const activePlayers = dbPlayers.length > 0 ? dbPlayers : players\<close>\<close>

definition activePlayers :: "client \<Rightarrow> player list" where
  "activePlayers s = (if length (dbPlayers s) > 0 then dbPlayers s else players s)"

text \<open>
  \<^verbatim>\<open>spinWheel\<close> up to \<^verbatim>\<open>setTimeout\<close>: the guards, the flag, the two log entries, the
  draw with \<open>rnd\<close> the value of \<^verbatim>\<open>Math.random()\<close>, and the timer, kept as the closure
  its callback will read.
\<close>

definition spinWheel :: "nat \<Rightarrow> rat \<Rightarrow> client \<Rightarrow> client" where
  "spinWheel now rnd s =
     (if length (activePlayers s) < 2 then addToLog now NeedTwoPlayers Info s
      else if isSpinning s then s
      else
        (let s1 = addToLog now WheelSpinning Spin (s\<lparr>isSpinning := True\<rparr>);
             s2 = (case currentGameId s of
                     Some g \<Rightarrow> if g \<noteq> [] then addGameLog g None Spin WheelSpinning s1 else s1
                   | None \<Rightarrow> s1);
             randomValue = rnd * totalValue (activePlayers s)
         in s2\<lparr>spinTimeout :=
                  Some \<lparr>closure_selectedWinner = selectedWinner randomValue 0 (activePlayers s),
                        closure_activePlayers = activePlayers s,
                        closure_totalValue = totalValue (activePlayers s),
                        closure_rollNumber = rollNumber s,
                        closure_currentGameId = currentGameId s,
                        closure_currentPlayer = currentPlayer s\<rparr>\<rparr>))"

text \<open>
  The callback of \<^verbatim>\<open>spinTimeoutRef\<close>, \<^verbatim>\<open>SPIN_DURATION\<close> later: settlement. \<open>updated\<close> and
  \<open>logged\<close> answer the store calls of \<^verbatim>\<open>completeGame\<close>. It ends by setting the timer of
  the reset.
\<close>

definition spinTimeoutCallback :: "nat \<Rightarrow> unit db_result \<Rightarrow> bool \<Rightarrow> client \<Rightarrow> client" where
  "spinTimeoutCallback now updated logged s =
     (case spinTimeout s of
        None \<Rightarrow> s
      | Some c \<Rightarrow>
          (let s0 = s\<lparr>spinTimeout := None\<rparr>;
               s3 =
                 (case closure_selectedWinner c of
                    None \<Rightarrow> s0
                  | Some w \<Rightarrow>
                      (let totalGiftValue =
                             foldl (\<lambda>sum p. sum + giftValue p) 0 (closure_activePlayers c);
                           chance = winnerChance (balance w + giftValue w) (closure_totalValue c);
                           s1 =
                             (case (closure_currentGameId c, closure_currentPlayer c) of
                                (Some g, Some cp) \<Rightarrow>
                                  if g \<noteq> [] then
                                    addGameLog g (Some cp) Winner (WonGifts (name w) totalGiftValue)
                                      (snd (completeGame g cp chance totalGiftValue now updated logged s0))
                                  else s0
                              | _ \<Rightarrow> s0);
                           matchEntry =
                             \<lparr>entry_id = toString now, entry_rollNumber = closure_rollNumber c,
                              entry_timestamp = now, entry_players = closure_activePlayers c,
                              entry_winner = w, totalPot = totalGiftValue,
                              entry_winnerChance = chance\<rparr>
                       in (addToLog now (WonGifts (name w) totalGiftValue) Winner
                             (s1\<lparr>matchHistory := matchEntry # matchHistory s1, winner := Some w,
                                  showWinnerModal := True\<rparr>))
                          \<lparr>rollNumber := rollNumber s1 + 1\<rparr>))
           in s3\<lparr>resetTimeout := Some c\<rparr>))"

text \<open>
  The callback of the inner \<^verbatim>\<open>setTimeout\<close>, three seconds after settlement: the reset,
  and the request for the next game when the client has a player.
\<close>

definition resetCallback ::
  "(string \<times> player list) option db_result \<Rightarrow> string db_result \<Rightarrow> client \<Rightarrow> client" where
  "resetCallback fetched created s =
     (case resetTimeout s of
        None \<Rightarrow> s
      | Some c \<Rightarrow>
          (let s1 = s\<lparr>resetTimeout := None, isSpinning := False, players := [], winner := None,
                      showWinnerModal := False\<rparr>
           in case closure_currentPlayer c of
                None \<Rightarrow> s1
              | Some cp \<Rightarrow> snd (getCurrentGame (closure_rollNumber c + 1) fetched created s1)))"

text \<open>The effect \<^verbatim>\<open>// Auto-spin when countdown reaches 0\<close>, run once.\<close>

definition autoSpinEffect :: "nat \<Rightarrow> rat \<Rightarrow> client \<Rightarrow> client" where
  "autoSpinEffect now rnd s =
     (if gameCountdown s = Some 0 \<and> \<not> isSpinning s \<and> length (activePlayers s) \<ge> 2
      then spinWheel now rnd s else s)"

text \<open>The effect \<^verbatim>\<open>// Sync database players with local state for wheel rendering\<close>.\<close>

definition syncPlayersEffect :: "client \<Rightarrow> client" where
  "syncPlayersEffect s = (if length (dbPlayers s) > 0 then s\<lparr>players := dbPlayers s\<rparr> else s)"

section \<open>WheelGame: selecting gifts\<close>

text \<open>\<^verbatim>\<open>handleGiftSelection\<close> and \<^verbatim>\<open>selectAllGifts\<close>.\<close>

definition handleGiftSelection :: "string \<Rightarrow> int \<Rightarrow> client \<Rightarrow> client" where
  "handleGiftSelection gid q s =
     s\<lparr>selectedGifts :=
         (case find (\<lambda>g. selected_id g = gid) (selectedGifts s) of
            Some existing \<Rightarrow>
              if q = 0 then filter (\<lambda>g. selected_id g \<noteq> gid) (selectedGifts s)
              else map (\<lambda>g. if selected_id g = gid then g\<lparr>selected_quantity := q\<rparr> else g)
                     (selectedGifts s)
          | None \<Rightarrow>
              if q > 0 then selectedGifts s @ [\<lparr>selected_id = gid, selected_quantity = q\<rparr>]
              else selectedGifts s)\<rparr>"

definition selectAllGifts :: "client \<Rightarrow> client" where
  "selectAllGifts s =
     s\<lparr>selectedGifts :=
         map (\<lambda>g. \<lparr>selected_id = gift_id g, selected_quantity = quantity g\<rparr>)
           (filter (\<lambda>g. quantity g > 0) (userInventory s))\<rparr>"

section \<open>One client as an event-driven machine\<close>

text \<open>
  A client is single-threaded: user actions, effects and timer callbacks run one at a
  time, and each reads the state as it is when it runs (a handler is taken to be the one
  of the latest render). An event carries what its handler reads from outside the state (the clock, the
  random numbers, the answers of the store). A handler that awaits the store runs to its
  end within one event. The button of \<^verbatim>\<open>addPlayer\<close> is there once for each revision of
  that function.
\<close>

datatype event =
    SetPlayerName string
  | SetPlayerBalance string
  | SetUserInventory "gift list"
  | HandleGiftSelection string int
  | SelectAllGifts
  | AddPlayer "string \<Rightarrow> int option" nat rat rat
  | AddPlayerCountdown "string \<Rightarrow> int option" nat rat rat
  | ConfirmGiftSelection nat "(string \<times> player list) option db_result" "string db_result"
      "string option db_result"
  | GetCurrentGame nat "(string \<times> player list) option db_result" "string db_result"
  | CountdownTick "int option db_result"
  | AutoSpin nat rat
  | SyncPlayers
  | SpinTimeout nat "unit db_result" bool
  | Reset "(string \<times> player list) option db_result" "string db_result"

fun step :: "event \<Rightarrow> client \<Rightarrow> client" where
  "step (SetPlayerName v) s = s\<lparr>playerName := v\<rparr>"
| "step (SetPlayerBalance v) s = s\<lparr>playerBalance := v\<rparr>"
| "step (SetUserInventory inventory) s = s\<lparr>userInventory := inventory\<rparr>"
| "step (HandleGiftSelection gid q) s = handleGiftSelection gid q s"
| "step SelectAllGifts s = selectAllGifts s"
| "step (AddPlayer parseInt now r1 r2) s = snd (addPlayer parseInt now r1 r2 s)"
| "step (AddPlayerCountdown parseInt now r1 r2) s = snd (addPlayer_countdown parseInt now r1 r2 s)"
| "step (ConfirmGiftSelection now fetched created joined) s =
     snd (confirmGiftSelection now fetched created joined s)"
| "step (GetCurrentGame rollNo fetched created) s = snd (getCurrentGame rollNo fetched created s)"
| "step (CountdownTick answer) s = countdownTick answer s"
| "step (AutoSpin now rnd) s = autoSpinEffect now rnd s"
| "step SyncPlayers s = syncPlayersEffect s"
| "step (SpinTimeout now updated logged) s = spinTimeoutCallback now updated logged s"
| "step (Reset fetched created) s = resetCallback fetched created s"

fun run :: "event list \<Rightarrow> client \<Rightarrow> client" where
  "run [] s = s"
| "run (e # es) s = run es (step e s)"

text \<open>
  A spin attempt is a step in which \<^verbatim>\<open>isSpinning\<close> goes from false to true: only
  \<^verbatim>\<open>spinWheel\<close> sets the flag, right before it draws. \<open>spin_attempts es s\<close> counts the
  attempts of the run of \<open>es\<close> from \<open>s\<close>.
\<close>

fun spin_attempts :: "event list \<Rightarrow> client \<Rightarrow> nat" where
  "spin_attempts [] s = 0"
| "spin_attempts (e # es) s =
     (if \<not> isSpinning s \<and> isSpinning (step e s) then 1 else 0) + spin_attempts es (step e s)"

fun is_reset :: "event \<Rightarrow> bool" where
  "is_reset (Reset fetched created) = True"
| "is_reset e = False"

fun is_join_or_input :: "event \<Rightarrow> bool" where
  "is_join_or_input (SetPlayerName v) = True"
| "is_join_or_input (SetPlayerBalance v) = True"
| "is_join_or_input (SetUserInventory inventory) = True"
| "is_join_or_input (HandleGiftSelection gid q) = True"
| "is_join_or_input SelectAllGifts = True"
| "is_join_or_input (AddPlayer parseInt now r1 r2) = True"
| "is_join_or_input (AddPlayerCountdown parseInt now r1 r2) = True"
| "is_join_or_input (ConfirmGiftSelection now fetched created joined) = True"
| "is_join_or_input e = False"


text \<open>The entries a sequence of \<^verbatim>\<open>addToLog\<close> calls makes, given as (time, message, type).\<close>

fun addToLog_all :: "(nat \<times> log_text \<times> log_type) list \<Rightarrow> client \<Rightarrow> client" where
  "addToLog_all [] s = s"
| "addToLog_all ((now, msg, ty) # ops) s = addToLog_all ops (addToLog now msg ty s)"

section \<open>The countdown deadline in the store\<close>





text \<open>The calls a handler issued: those of the state after it that were not there before.\<close>

definition issued :: "client \<Rightarrow> client \<Rightarrow> db_call list" where
  "issued s s' = drop (length (calls s)) (calls s')"

section \<open>Example inputs\<close>

text \<open>Two participants of weights 10 and 90, in join order.\<close>

definition example_first :: player where
  "example_first =
     \<lparr>player_id = ''p1'', name = ''first'', balance = 10, color = ''#FF6B6B'', gifts = [],
      giftValue = 0, player_telegramUser = None\<rparr>"

definition example_second :: player where
  "example_second =
     \<lparr>player_id = ''p2'', name = ''second'', balance = 50, color = ''#4ECDC4'', gifts = [''gift''],
      giftValue = 40, player_telegramUser = None\<rparr>"

text \<open>Two participants of weight zero.\<close>

definition example_zero_first :: player where
  "example_zero_first =
     \<lparr>player_id = ''z1'', name = ''zero1'', balance = 0, color = ''#FF6B6B'', gifts = [],
      giftValue = 0, player_telegramUser = None\<rparr>"

definition example_zero_second :: player where
  "example_zero_second =
     \<lparr>player_id = ''z2'', name = ''zero2'', balance = 0, color = ''#4ECDC4'', gifts = [],
      giftValue = 0, player_telegramUser = None\<rparr>"

text \<open>
  A client that shows a game of the store with the two participants of weights 10 and 90,
  the countdown at zero; \<open>example_spectator\<close> has no player of its own,
  \<open>example_db_client\<close> is the player \<open>me\<close>.
\<close>

definition example_spectator :: client where
  "example_spectator =
     initial_client\<lparr>currentGameId := Some ''game1'', dbPlayers := [example_first, example_second],
                     gameCountdown := Some 0\<rparr>"

definition example_db_client :: client where
  "example_db_client = example_spectator\<lparr>currentPlayer := Some ''me''\<rparr>"

text \<open>A second client showing the same game, the player \<open>you\<close>.\<close>

definition example_other_client :: client where
  "example_other_client = example_spectator\<lparr>currentPlayer := Some ''you''\<rparr>"


text \<open>
  A run from mounting, of a client without a player of its own: the waiting game of the
  store is loaded with its two participants, the countdown is read at zero, the wheel is
  spun and the round settled, the reset follows, and the auto-spin effect runs again.
\<close>

definition example_replay :: "event list" where
  "example_replay =
     [GetCurrentGame 0 (DbData (Some (''game1'', [example_first, example_second]))) (DbData ''none''),
      CountdownTick (DbData (Some 0)),
      AutoSpin 0 (1 / 2),
      SpinTimeout 4 (DbData ()) True,
      Reset (DbData None) (DbData ''none''),
      AutoSpin 7 (1 / 2)]"


text \<open>
  A client whose local round holds fifteen players, with the name of one of them and a
  balance typed into the form; and a client whose log holds twenty entries.
\<close>

definition example_player :: "nat \<Rightarrow> player" where
  "example_player n =
     \<lparr>player_id = toString n, name = ''player'' @ toString n, balance = 10,
      color = COLORS ! (n mod length COLORS), gifts = [], giftValue = 0,
      player_telegramUser = None\<rparr>"

definition example_full_client :: client where
  "example_full_client =
     initial_client\<lparr>players := map example_player [0..<15], playerName := ''player3'',
                     playerBalance := ''100''\<rparr>"

definition example_full_log_client :: client where
  "example_full_log_client =
     initial_client\<lparr>gameLog := map (\<lambda>n. newLog n NeedTwoPlayers Info) (rev [0..<20])\<rparr>"

section \<open>Properties of the draw\<close>

lemma foldl_totalValue:
  "foldl (\<lambda>sum p. sum + balance p + giftValue p) a ps = a + sum_list (map playerValue ps)"
  by (induction ps arbitrary: a) (simp_all add: playerValue_def algebra_simps)

lemma totalValue_sum_list: "totalValue ps = sum_list (map playerValue ps)"
  by (simp add: totalValue_def foldl_totalValue)






section \<open>Spinning without a pool\<close>

text \<open>
  Claim C7 says that the draw fails with an empty-pool error whenever the list is empty or
  the total weight is not positive, and that no winner is selected then. The program has
  no such error and never looks at the total: with two participants of weight zero the
  total is zero, \<open>randomValue\<close> is zero, and the loop selects the first participant.
\<close>

theorem zero_total_selects_first_counterexample:
  "totalValue [example_zero_first, example_zero_second] \<le> 0
   \<and> selectedWinner (1 / 2 * totalValue [example_zero_first, example_zero_second]) 0
        [example_zero_first, example_zero_second] = Some example_zero_first
   \<and> map_option closure_selectedWinner
        (spinTimeout (spinWheel 0 (1 / 2)
           (initial_client\<lparr>players := [example_zero_first, example_zero_second]\<rparr>)))
      = Some (Some example_zero_first)"
  by (simp add: totalValue_def playerValue_def example_zero_first_def example_zero_second_def
      spinWheel_def activePlayers_def initial_client_def addToLog_def)

text \<open>
  Claim C7 as amended. What the program guards is the number of active players: with
  fewer than two (so also with none) \<^verbatim>\<open>spinWheel\<close> draws nothing and selects no winner; all
  it does is add the entry "need at least 2 players" to the local log. No timer is set, the
  flag, the winner, the match history, the error state and the store are untouched, and the
  auto-spin effect does not even call it.
\<close>

theorem spinWheel_needs_two_players:
  assumes "length (activePlayers s) < 2"
  shows "spinWheel now rnd s = addToLog now NeedTwoPlayers Info s
       \<and> autoSpinEffect now rnd s = s
       \<and> spinTimeout (spinWheel now rnd s) = spinTimeout s
       \<and> isSpinning (spinWheel now rnd s) = isSpinning s
       \<and> winner (spinWheel now rnd s) = winner s
       \<and> matchHistory (spinWheel now rnd s) = matchHistory s
       \<and> calls (spinWheel now rnd s) = calls s
       \<and> error (spinWheel now rnd s) = error s
       \<and> gameLog (spinWheel now rnd s) = newLog now NeedTwoPlayers Info # take 19 (gameLog s)"
  using assms by (simp add: spinWheel_def autoSpinEffect_def addToLog_def)

text \<open>The theorem at the freshly mounted client, whose pool is empty.\<close>

theorem spinWheel_needs_two_players_witness:
  "spinWheel 0 (1 / 2) initial_client = addToLog 0 NeedTwoPlayers Info initial_client
   \<and> activePlayers initial_client = []
   \<and> spinTimeout (spinWheel 0 (1 / 2) initial_client) = None
   \<and> \<not> isSpinning (spinWheel 0 (1 / 2) initial_client)
   \<and> winner (spinWheel 0 (1 / 2) initial_client) = None
   \<and> calls (spinWheel 0 (1 / 2) initial_client) = []"
proof -
  have a: "activePlayers initial_client = []"
    by (simp add: activePlayers_def initial_client_def)
  then have l: "length (activePlayers initial_client) < 2" by simp
  have f: "spinTimeout initial_client = None" "\<not> isSpinning initial_client"
    "winner initial_client = None" "calls initial_client = []"
    by (simp_all add: initial_client_def)
  from spinWheel_needs_two_players [OF l, of 0 "1 / 2"] a f show ?thesis
    by (simp add: addToLog_def)
qed

section \<open>The local event log\<close>

lemma take_newLog:
  "k \<le> 20 \<Longrightarrow> take k (xs @ e # take 19 ys) = take k (xs @ e # ys)"
  by (induction xs arbitrary: k) (auto simp: take_Cons' )

lemma addToLog_all_take:
  "take 20 (gameLog (addToLog_all ops s))
     = take 20 (rev (map (\<lambda>(now, msg, ty). newLog now msg ty) ops) @ gameLog s)"
proof (induction ops arbitrary: s)
  case Nil
  show ?case by simp
next
  case (Cons a ops)
  obtain now msg ty where a: "a = (now, msg, ty)" by (cases a)
  have "take 20 (gameLog (addToLog_all (a # ops) s))
        = take 20 (rev (map (\<lambda>(now, msg, ty). newLog now msg ty) ops)
                    @ newLog now msg ty # take 19 (gameLog s))"
    using Cons.IH [of "addToLog now msg ty s"] a by (simp add: addToLog_def)
  also have "\<dots> = take 20 (rev (map (\<lambda>(now, msg, ty). newLog now msg ty) ops)
                    @ newLog now msg ty # gameLog s)"
    by (rule take_newLog) simp
  finally show ?case using a by simp
qed

lemma addToLog_all_length:
  "length (gameLog (addToLog_all (a # ops) s)) \<le> 20"
proof (induction ops arbitrary: a s)
  case Nil
  obtain now msg ty where a: "a = (now, msg, ty)" by (cases a)
  then show ?case by (simp add: addToLog_def)
next
  case (Cons b ops)
  obtain now msg ty where a: "a = (now, msg, ty)" by (cases a)
  from Cons [of b "addToLog now msg ty s"] a show ?case by simp
qed

text \<open>
  Claim C9 as amended. The local log is a window, not an append-only list: every
  \<^verbatim>\<open>addToLog\<close> puts the new entry first and keeps the 19 most recent earlier entries,
  unchanged and in order; after any non-empty sequence of log operations the log is
  exactly the 20 most recent entries, and older ones are gone.
\<close>

theorem log_keeps_twenty_most_recent:
  "gameLog (addToLog_all (a # ops) s)
     = take 20 (rev (map (\<lambda>(now, msg, ty). newLog now msg ty) (a # ops)) @ gameLog s)
   \<and> gameLog (addToLog now msg ty s) = newLog now msg ty # take 19 (gameLog s)
   \<and> tl (gameLog (addToLog now msg ty s)) = take 19 (gameLog s)
   \<and> length (gameLog (addToLog_all (a # ops) s)) \<le> 20"
proof -
  have "gameLog (addToLog_all (a # ops) s) = take 20 (gameLog (addToLog_all (a # ops) s))"
    using addToLog_all_length [of a ops s] by simp
  then have "gameLog (addToLog_all (a # ops) s)
     = take 20 (rev (map (\<lambda>(now, msg, ty). newLog now msg ty) (a # ops)) @ gameLog s)"
    using addToLog_all_take [of "a # ops" s] by simp
  then show ?thesis
    using addToLog_all_length [of a ops s] by (simp add: addToLog_def)
qed

text \<open>
  Claim C9 says that entries of the log are never deleted. On a log of twenty entries
  (times 19 down to 0) one more \<^verbatim>\<open>addToLog\<close> leaves the times 20 down to 1: the oldest
  entry is no longer in the log.
\<close>

theorem log_drops_oldest_counterexample:
  "length (gameLog example_full_log_client) = 20
   \<and> timestamp (last (gameLog example_full_log_client)) = 0
   \<and> map timestamp (gameLog (addToLog 20 NeedTwoPlayers Info example_full_log_client))
       = rev [1..<21]
   \<and> last (gameLog example_full_log_client)
       \<notin> set (gameLog (addToLog 20 NeedTwoPlayers Info example_full_log_client))"
proof -
  let ?old = "gameLog example_full_log_client"
  let ?new = "gameLog (addToLog 20 NeedTwoPlayers Info example_full_log_client)"
  have old: "map timestamp ?old = rev [0..<20]"
    by (simp add: example_full_log_client_def initial_client_def newLog_def rev_map comp_def)
  have len: "length ?old = 20"
    using arg_cong [OF old, of length] by simp
  have "rev [0..<20] = 19 # 18 # 17 # 16 # 15 # 14 # 13 # 12 # 11 # 10 # 9 # 8 # 7 # 6 # 5 # 4
      # 3 # 2 # 1 # [0::nat]"
    by code_simp
  with old have olds: "map timestamp ?old = 19 # 18 # 17 # 16 # 15 # 14 # 13 # 12 # 11 # 10 # 9
      # 8 # 7 # 6 # 5 # 4 # 3 # 2 # 1 # [0::nat]"
    by simp
  have ne: "?old \<noteq> []" using len by auto
  have lst: "timestamp (last ?old) = 0"
    using last_map [OF ne, of timestamp] olds by simp
  have "map timestamp ?new = 20 # take 19 (map timestamp ?old)"
    by (simp add: addToLog_def newLog_def take_map)
  also have "\<dots> = 20 # 19 # 18 # 17 # 16 # 15 # 14 # 13 # 12 # 11 # 10 # 9 # 8 # 7 # 6 # 5
      # 4 # 3 # 2 # [1::nat]"
    unfolding olds by simp
  finally have news: "map timestamp ?new = 20 # 19 # 18 # 17 # 16 # 15 # 14 # 13 # 12 # 11 # 10
      # 9 # 8 # 7 # 6 # 5 # 4 # 3 # 2 # [1::nat]" .
  have "rev [1..<21] = 20 # 19 # 18 # 17 # 16 # 15 # 14 # 13 # 12 # 11 # 10
      # 9 # 8 # 7 # 6 # 5 # 4 # 3 # 2 # [1::nat]"
    by code_simp
  with news have newr: "map timestamp ?new = rev [1..<21]" by simp
  have "last ?old \<notin> set ?new"
  proof
    assume "last ?old \<in> set ?new"
    then have "timestamp (last ?old) \<in> set (map timestamp ?new)" by simp
    with lst news show False by simp
  qed
  with len lst newr show ?thesis by blast
qed


section \<open>Joining a full round\<close>

lemma addPlayer_rejected_unchanged:
  "addPlayer parseInt now r1 r2 s = (Some r, s') \<Longrightarrow> s' = s"
  by (auto simp: addPlayer_def Let_def split: option.splits if_splits)

text \<open>
  Claim C6 as amended. With fifteen players in the local round every further join
  attempt, through \<^verbatim>\<open>addPlayer\<close> (either revision) or \<^verbatim>\<open>confirmGiftSelection\<close>, ends in an
  early return and leaves the whole client state as it was (players, stakes, log, and no
  call to the store, so no countdown). The rejection is the "maximum 15 players" one
  whenever the attempt passes the checks that come before the cap: for \<^verbatim>\<open>addPlayer\<close> a
  non-empty name, a balance from 1 to 10000 and a name not yet in the round; for
  \<^verbatim>\<open>confirmGiftSelection\<close> a non-empty selection and a non-empty name.
\<close>

theorem full_round_rejects_join:
  assumes "length (players s) \<ge> 15"
  shows "(\<exists>r. addPlayer parseInt now r1 r2 s = (Some r, s)
            \<and> ((\<exists>b. parseInt (playerBalance s) = Some b \<and> 1 \<le> b \<and> b \<le> 10000)
                 \<and> trim (playerName s) \<noteq> []
                 \<and> \<not> list_ex (\<lambda>p. name p = trim (playerName s)) (players s)
                \<longrightarrow> r = MaxPlayers))
       \<and> (\<exists>r. addPlayer_countdown parseInt now r1 r2 s = (Some r, s))
       \<and> (\<exists>r. confirmGiftSelection now fetched created joined s = (Some r, s)
            \<and> (selectedGifts s \<noteq> [] \<and> displayName s \<noteq> [] \<longrightarrow> r = MaxPlayers))
       \<and> step (AddPlayer parseInt now r1 r2) s = s
       \<and> step (ConfirmGiftSelection now fetched created joined) s = s"
proof -
  have a: "\<exists>r. addPlayer parseInt now r1 r2 s = (Some r, s)
            \<and> ((\<exists>b. parseInt (playerBalance s) = Some b \<and> 1 \<le> b \<and> b \<le> 10000)
                 \<and> trim (playerName s) \<noteq> []
                 \<and> \<not> list_ex (\<lambda>p. name p = trim (playerName s)) (players s)
                \<longrightarrow> r = MaxPlayers)"
    using assms by (auto simp: addPlayer_def split: option.splits)
  then obtain r where r: "addPlayer parseInt now r1 r2 s = (Some r, s)" by blast
  then have b: "\<exists>r. addPlayer_countdown parseInt now r1 r2 s = (Some r, s)"
    by (simp add: addPlayer_countdown_def)
  have c: "\<exists>r. confirmGiftSelection now fetched created joined s = (Some r, s)
            \<and> (selectedGifts s \<noteq> [] \<and> displayName s \<noteq> [] \<longrightarrow> r = MaxPlayers)"
    using assms by (simp add: confirmGiftSelection_def)
  from a b c r show ?thesis by auto
qed

lemma name_example_player: "name (example_player n) = ''player'' @ toString n"
  by (simp add: example_player_def)

text \<open>The theorem at a full round and a newcomer with a valid name and balance.\<close>

theorem full_round_rejects_join_witness:
  "addPlayer (\<lambda>v. Some (100::int)) 0 0 0 (example_full_client\<lparr>playerName := ''newcomer''\<rparr>)
     = (Some MaxPlayers, example_full_client\<lparr>playerName := ''newcomer''\<rparr>)"
proof -
  let ?s = "example_full_client\<lparr>playerName := ''newcomer''\<rparr>"
  have len: "length (players ?s) \<ge> 15"
    by (simp add: example_full_client_def)
  have t: "trim (playerName ?s) = ''newcomer''"
    by (simp add: trim_def is_whitespace_def)
  have ex: "\<not> list_ex (\<lambda>p. name p = trim (playerName ?s)) (players ?s)"
    unfolding t by (simp add: example_full_client_def list_ex_iff name_example_player)
  have bal: "\<exists>b. (\<lambda>v. Some (100::int)) (playerBalance ?s) = Some b \<and> 1 \<le> b \<and> b \<le> (10000::int)"
    by simp
  from full_round_rejects_join [OF len, of "\<lambda>v. Some 100" 0 0 0] obtain r where
    r: "addPlayer (\<lambda>v. Some (100::int)) 0 0 0 ?s = (Some r, ?s)"
       "(\<exists>b. (\<lambda>v. Some (100::int)) (playerBalance ?s) = Some b \<and> 1 \<le> b \<and> b \<le> 10000)
                 \<and> trim (playerName ?s) \<noteq> []
                 \<and> \<not> list_ex (\<lambda>p. name p = trim (playerName ?s)) (players ?s)
                \<longrightarrow> r = MaxPlayers"
    by blast
  from r(2) bal ex t have "r = MaxPlayers" by simp
  with r(1) show ?thesis by simp
qed

lemma toString_3: "toString 3 = ''3''"
  by (simp add: toString.simps digit_char_def)

text \<open>
  Claim C6 says that every join attempt on a full round is rejected as "round full". The
  name and gift checks come first: a sixteenth attempt under the name of a player already
  in the round is rejected as "name already exists", and one with no gift selected returns
  silently. (The state is unchanged in both.)
\<close>

theorem full_round_other_rejection_counterexample:
  "length (players example_full_client) = 15
   \<and> addPlayer (\<lambda>v. Some (100::int)) 0 0 0 example_full_client = (Some NameExists, example_full_client)
   \<and> confirmGiftSelection 0 (DbData None) (DbData ''game1'') (DbData None) example_full_client
       = (Some NoGiftsSelected, example_full_client)"
proof -
  have len: "length (players example_full_client) = 15"
    by (simp add: example_full_client_def)
  have t: "trim (playerName example_full_client) = ''player3''"
    by (simp add: trim_def is_whitespace_def example_full_client_def)
  have "example_player 3 \<in> set (players example_full_client)"
    by (simp add: example_full_client_def)
  moreover have "name (example_player 3) = ''player3''"
    by (simp add: name_example_player toString_3)
  ultimately have ex: "list_ex (\<lambda>p. name p = ''player3'') (players example_full_client)"
    unfolding list_ex_iff by blast
  have a: "addPlayer (\<lambda>v. Some (100::int)) 0 0 0 example_full_client = (Some NameExists, example_full_client)"
    using t ex by (simp add: addPlayer_def)
  have b: "confirmGiftSelection 0 (DbData None) (DbData ''game1'') (DbData None) example_full_client
       = (Some NoGiftsSelected, example_full_client)"
    by (simp add: confirmGiftSelection_def example_full_client_def initial_client_def)
  from len a b show ?thesis by blast
qed


section \<open>Spinning and settlement\<close>

lemma example_draw:
  "totalValue [example_first, example_second] = 100"
  "selectedWinner (1 / 2 * 100) 0 [example_first, example_second] = Some example_second"
  "selectedWinner (1 / 20 * 100) 0 [example_first, example_second] = Some example_first"
proof -
  have v: "playerValue example_first = 10" "playerValue example_second = 90"
    by (simp_all add: playerValue_def example_first_def example_second_def)
  show "totalValue [example_first, example_second] = 100"
    using v by (simp add: totalValue_sum_list)
  show "selectedWinner (1 / 2 * 100) 0 [example_first, example_second] = Some example_second"
    using v by simp
  show "selectedWinner (1 / 20 * 100) 0 [example_first, example_second] = Some example_first"
    using v by simp
qed

lemma example_db_client_fields:
  "activePlayers example_db_client = [example_first, example_second]"
  "gameCountdown example_db_client = Some 0"
  "\<not> isSpinning example_db_client"
  "currentGameId example_db_client = Some ''game1''"
  "currentPlayer example_db_client = Some ''me''"
  "rollNumber example_db_client = 8343"
  "calls example_db_client = []"
  by (simp_all add: activePlayers_def example_db_client_def example_spectator_def
      initial_client_def)

lemma spinWheel_closure:
  "length (activePlayers s) \<ge> 2 \<Longrightarrow> \<not> isSpinning s \<Longrightarrow>
   spinTimeout (spinWheel now rnd s) =
     Some \<lparr>closure_selectedWinner =
             selectedWinner (rnd * totalValue (activePlayers s)) 0 (activePlayers s),
           closure_activePlayers = activePlayers s,
           closure_totalValue = totalValue (activePlayers s),
           closure_rollNumber = rollNumber s,
           closure_currentGameId = currentGameId s,
           closure_currentPlayer = currentPlayer s\<rparr>"
  by (simp add: spinWheel_def Let_def addToLog_def addGameLog_def split: option.splits)

lemma spinWheel_calls:
  "length (activePlayers s) \<ge> 2 \<Longrightarrow> \<not> isSpinning s \<Longrightarrow>
   calls (spinWheel now rnd s) =
     (case currentGameId s of
        Some g \<Rightarrow> if g \<noteq> [] then calls s @ [AddGameLog g None Spin WheelSpinning] else calls s
      | None \<Rightarrow> calls s)"
  by (simp add: spinWheel_def Let_def addToLog_def addGameLog_def split: option.splits)

lemma spinTimeoutCallback_settles:
  assumes "spinTimeout s = Some c" "closure_selectedWinner c = Some w"
    "closure_currentGameId c = Some g" "g \<noteq> []" "closure_currentPlayer c = Some cp"
  shows "winner (spinTimeoutCallback now updated logged s) = Some w"
    and "calls (spinTimeoutCallback now (DbData ()) True s) =
          calls s @
          [UpdateGameStatus g ''completed'' cp
             (winnerChance (balance w + giftValue w) (closure_totalValue c))
             (foldl (\<lambda>sum p. sum + giftValue p) 0 (closure_activePlayers c)) now,
           AddGameLog g (Some cp) Winner
             (HookWon (foldl (\<lambda>sum p. sum + giftValue p) 0 (closure_activePlayers c))),
           AddGameLog g (Some cp) Winner
             (WonGifts (name w) (foldl (\<lambda>sum p. sum + giftValue p) 0 (closure_activePlayers c)))]"
  using assms
  by (simp_all add: spinTimeoutCallback_def Let_def completeGame_def addGameLog_def addToLog_def
      split: db_result.splits)

text \<open>
  Claim C1 says that the winner id written to the store is the participant the draw
  selected. \<^verbatim>\<open>spinWheel\<close> calls
  \<^verbatim>\<open>completeGame(currentGameId, currentPlayer.id, winnerChance, totalGiftValue)\<close>: the id
  it passes as \<^verbatim>\<open>winnerId\<close> is that of the client's own player. Here the client is the
  player \<open>me\<close>, the round holds the participants \<open>p1\<close> (weight 10) and \<open>p2\<close> (weight 90),
  and the random number is one half: the draw selects \<open>p2\<close>, the client announces \<open>p2\<close>
  locally, and the store is told that the winner is \<open>me\<close>.
\<close>

theorem settlement_writes_own_id:
  "winner (run [AutoSpin 0 (1 / 2), SpinTimeout 1 (DbData ()) True] example_db_client)
     = Some example_second
   \<and> player_id example_second = ''p2''
   \<and> calls (run [AutoSpin 0 (1 / 2), SpinTimeout 1 (DbData ()) True] example_db_client)
     = [AddGameLog ''game1'' None Spin WheelSpinning,
        UpdateGameStatus ''game1'' ''completed'' ''me'' (Some 90) 40 1,
        AddGameLog ''game1'' (Some ''me'') Winner (HookWon 40),
        AddGameLog ''game1'' (Some ''me'') Winner (WonGifts ''second'' 40)]"
proof -
  let ?s1 = "spinWheel 0 (1 / 2) example_db_client"
  let ?c = "\<lparr>closure_selectedWinner = Some example_second,
             closure_activePlayers = [example_first, example_second],
             closure_totalValue = 100, closure_rollNumber = 8343,
             closure_currentGameId = Some ''game1'',
             closure_currentPlayer = Some ''me''\<rparr>"
  have auto_spin: "autoSpinEffect 0 (1 / 2) example_db_client = ?s1"
    by (simp add: autoSpinEffect_def example_db_client_fields)
  have "spinTimeout ?s1 =
     Some \<lparr>closure_selectedWinner =
             selectedWinner (1 / 2 * totalValue (activePlayers example_db_client)) 0
               (activePlayers example_db_client),
           closure_activePlayers = activePlayers example_db_client,
           closure_totalValue = totalValue (activePlayers example_db_client),
           closure_rollNumber = rollNumber example_db_client,
           closure_currentGameId = currentGameId example_db_client,
           closure_currentPlayer = currentPlayer example_db_client\<rparr>"
    by (rule spinWheel_closure) (simp_all add: example_db_client_fields)
  then have c: "spinTimeout ?s1 = Some ?c"
    by (simp only: example_db_client_fields example_draw)
  have k: "calls ?s1 = [AddGameLog ''game1'' None Spin WheelSpinning]"
    by (simp add: spinWheel_calls example_db_client_fields)
  have g: "foldl (\<lambda>sum p. sum + giftValue p) 0 [example_first, example_second] = 40"
    "balance example_second + giftValue example_second = 90" "name example_second = ''second''"
    "player_id example_second = ''p2''"
    "giftValue example_first + giftValue example_second = 40"
    by (simp_all add: example_first_def example_second_def)
  have r: "run [AutoSpin 0 (1 / 2), SpinTimeout 1 (DbData ()) True] example_db_client
        = spinTimeoutCallback 1 (DbData ()) True ?s1"
    by (simp add: auto_spin)
  have w: "winner (spinTimeoutCallback 1 (DbData ()) True ?s1) = Some example_second"
    by (rule spinTimeoutCallback_settles(1)
          [OF c, where w = example_second and g = "''game1''" and cp = "''me''"]) simp_all
  have "calls (spinTimeoutCallback 1 (DbData ()) True ?s1) =
      calls ?s1 @
          [UpdateGameStatus ''game1'' ''completed'' ''me''
             (winnerChance (balance example_second + giftValue example_second) (closure_totalValue ?c))
             (foldl (\<lambda>sum p. sum + giftValue p) 0 (closure_activePlayers ?c)) 1,
           AddGameLog ''game1'' (Some ''me'') Winner
             (HookWon (foldl (\<lambda>sum p. sum + giftValue p) 0 (closure_activePlayers ?c))),
           AddGameLog ''game1'' (Some ''me'') Winner
             (WonGifts (name example_second) (foldl (\<lambda>sum p. sum + giftValue p) 0 (closure_activePlayers ?c)))]"
    by (rule spinTimeoutCallback_settles(2)
          [OF c, where w = example_second and g = "''game1''" and cp = "''me''"]) simp_all
  then have "calls (spinTimeoutCallback 1 (DbData ()) True ?s1) =
      [AddGameLog ''game1'' None Spin WheelSpinning,
        UpdateGameStatus ''game1'' ''completed'' ''me'' (Some 90) 40 1,
        AddGameLog ''game1'' (Some ''me'') Winner (HookWon 40),
        AddGameLog ''game1'' (Some ''me'') Winner (WonGifts ''second'' 40)]"
    by (simp add: k g winnerChance_def)
  with r w g(4) show ?thesis by simp
qed


section \<open>The players of a round and the palette\<close>

lemma length_COLORS: "length COLORS = 15"
  by (simp add: COLORS_def)

lemma distinct_COLORS: "distinct COLORS"
  by (simp add: COLORS_def)

lemma players_getCurrentGame:
  "players (snd (getCurrentGame rollNo fetched created s)) = players s"
  by (simp add: getCurrentGame_def split: db_result.splits option.splits prod.splits)

lemma players_joinGameWithGifts:
  "players (snd (joinGameWithGifts g cp sels col pos joined s)) = players s"
  by (simp add: joinGameWithGifts_def split: db_result.splits)

lemma players_joinThroughStore:
  "players (snd (joinThroughStore fetched created joined sels tv s)) = players s"
proof (cases "currentPlayer s")
  case None
  then show ?thesis by (simp add: joinThroughStore_def)
next
  case (Some cp)
  obtain gid s1 where g: "(if truthy (currentGameId s) then (currentGameId s, s)
                 else getCurrentGame (rollNumber s) fetched created s) = (gid, s1)"
    by (cases "(if truthy (currentGameId s) then (currentGameId s, s)
                 else getCurrentGame (rollNumber s) fetched created s)")
  then have p1: "players s1 = players s"
    using players_getCurrentGame [of "rollNumber s" fetched created s]
    by (auto split: if_splits)
  show ?thesis
  proof (cases gid)
    case None
    with Some g p1 show ?thesis by (simp add: joinThroughStore_def)
  next
    case (Some gameId)
    obtain part s2 where j: "joinGameWithGifts gameId cp sels
        (COLORS ! (length (players s) mod length COLORS)) (length (players s)) joined s1 = (part, s2)"
      by (cases "joinGameWithGifts gameId cp sels
        (COLORS ! (length (players s) mod length COLORS)) (length (players s)) joined s1")
    then have p2: "players s2 = players s1"
      using players_joinGameWithGifts [of gameId cp sels
        "COLORS ! (length (players s) mod length COLORS)" "length (players s)" joined s1]
      by simp
    from \<open>currentPlayer s = Some cp\<close> Some g j p1 p2 show ?thesis
      by (simp add: joinThroughStore_def addGameLog_def split: option.splits)
  qed
qed

lemma players_joinLocally:
  "players (joinLocally now emojis tv s s1) =
     (case find (\<lambda>p. name p = displayName s) (players s) of
        Some existingPlayer \<Rightarrow>
          map (\<lambda>p. if name p = displayName s
                    then p\<lparr>gifts := gifts p @ emojis, giftValue := giftValue p + tv\<rparr>
                    else p) (players s1)
      | None \<Rightarrow>
          players s1 @
            [\<lparr>player_id = toString now, name = displayName s, balance = 0,
              color = COLORS ! (length (players s) mod length COLORS),
              gifts = emojis, giftValue = tv, player_telegramUser = telegramUser s\<rparr>])"
  by (simp add: joinLocally_def Let_def addToLog_def startGameCountdown_def
      split: option.splits)

lemma palette_prefix_append:
  assumes "map color ps = take (length ps) COLORS" "length ps < 15"
    "color p = COLORS ! (length ps mod length COLORS)"
  shows "map color (ps @ [p]) = take (length (ps @ [p])) COLORS"
proof -
  from assms(2) have "length ps mod length COLORS = length ps"
    by (simp add: length_COLORS)
  with assms show ?thesis
    by (simp add: take_Suc_conv_app_nth length_COLORS)
qed

lemma palette_prefix_map:
  "color \<circ> (\<lambda>p. if name p = n
                    then p\<lparr>gifts := gifts p @ emojis, giftValue := giftValue p + tv\<rparr>
                    else p) = color"
  by (rule ext) simp

lemma addPlayer_players:
  "addPlayer parseInt now r1 r2 s = (None, s') \<Longrightarrow>
   length (players s) < 15 \<and>
   (\<exists>p. players s' = players s @ [p] \<and> color p = COLORS ! (length (players s) mod length COLORS))"
  by (auto simp: addPlayer_def Let_def addToLog_def split: option.splits if_splits)

lemma addPlayer_players_rejected:
  "addPlayer parseInt now r1 r2 s = (Some r, s') \<Longrightarrow> players s' = players s"
  by (auto simp: addPlayer_def Let_def addToLog_def split: option.splits if_splits)

lemma step_join_palette:
  assumes inv: "length (players s) \<le> 15" "map color (players s) = take (length (players s)) COLORS"
    and e: "is_join_or_input e"
  shows "length (players (step e s)) \<le> 15
       \<and> map color (players (step e s)) = take (length (players (step e s))) COLORS"
proof (cases e)
  case (AddPlayer parseInt now r1 r2)
  obtain r s' where a: "addPlayer parseInt now r1 r2 s = (r, s')"
    by (cases "addPlayer parseInt now r1 r2 s")
  show ?thesis
  proof (cases r)
    case None
    with a addPlayer_players [of parseInt now r1 r2 s s'] obtain p where
      p: "length (players s) < 15" "players s' = players s @ [p]"
         "color p = COLORS ! (length (players s) mod length COLORS)"
      by blast
    from palette_prefix_append [OF inv(2) p(1) p(3)] p AddPlayer a show ?thesis by simp
  next
    case (Some rj)
    with a addPlayer_players_rejected [of parseInt now r1 r2 s rj s'] inv AddPlayer
    show ?thesis by simp
  qed
next
  case (AddPlayerCountdown parseInt now r1 r2)
  obtain r s' where a: "addPlayer parseInt now r1 r2 s = (r, s')"
    by (cases "addPlayer parseInt now r1 r2 s")
  then have st: "players (step e s) = players s'"
    using AddPlayerCountdown
    by (simp add: addPlayer_countdown_def startGameCountdown_def split: option.splits)
  show ?thesis
  proof (cases r)
    case None
    with a addPlayer_players [of parseInt now r1 r2 s s'] obtain p where
      p: "length (players s) < 15" "players s' = players s @ [p]"
         "color p = COLORS ! (length (players s) mod length COLORS)"
      by blast
    from palette_prefix_append [OF inv(2) p(1) p(3)] p st show ?thesis by simp
  next
    case (Some rj)
    with a addPlayer_players_rejected [of parseInt now r1 r2 s rj s'] inv st
    show ?thesis by simp
  qed
next
  case (ConfirmGiftSelection now fetched created joined)
  show ?thesis
  proof (cases "selectedGifts s = [] \<or> displayName s = [] \<or> length (players s) \<ge> 15")
    case True
    then have "confirmGiftSelection now fetched created joined s
        = (if selectedGifts s = [] then (Some NoGiftsSelected, s)
           else if displayName s = [] then (Some NoPlayerName, s) else (Some MaxPlayers, s))"
      by (auto simp: confirmGiftSelection_def)
    with inv ConfirmGiftSelection show ?thesis by simp
  next
    case False
    then have lt: "length (players s) < 15" by simp
    obtain emojis tv sels where gt: "giftTotals (userInventory s) (selectedGifts s) = (emojis, tv, sels)"
      by (cases "giftTotals (userInventory s) (selectedGifts s)")
    obtain r s1 where j: "joinThroughStore fetched created joined sels tv s = (r, s1)"
      by (cases "joinThroughStore fetched created joined sels tv s")
    then have p1: "players s1 = players s"
      using players_joinThroughStore [of fetched created joined sels tv s] by simp
    show ?thesis
    proof (cases r)
      case (Some rj)
      with False gt j p1 inv ConfirmGiftSelection show ?thesis
        by (simp add: confirmGiftSelection_def)
    next
      case None
      with False gt j have st: "step e s = joinLocally now emojis tv s s1"
        using ConfirmGiftSelection by (simp add: confirmGiftSelection_def)
      show ?thesis
      proof (cases "find (\<lambda>p. name p = displayName s) (players s)")
        case None
        then have "players (step e s) = players s @
            [\<lparr>player_id = toString now, name = displayName s, balance = 0,
              color = COLORS ! (length (players s) mod length COLORS),
              gifts = emojis, giftValue = tv, player_telegramUser = telegramUser s\<rparr>]"
          by (simp add: st players_joinLocally p1)
        with palette_prefix_append [OF inv(2) lt, of "\<lparr>player_id = toString now, name = displayName s, balance = 0,
              color = COLORS ! (length (players s) mod length COLORS),
              gifts = emojis, giftValue = tv, player_telegramUser = telegramUser s\<rparr>"] lt
        show ?thesis by simp
      next
        case (Some existingPlayer)
        then have "players (step e s) = map (\<lambda>p. if name p = displayName s
                    then p\<lparr>gifts := gifts p @ emojis, giftValue := giftValue p + tv\<rparr>
                    else p) (players s)"
          by (simp add: st players_joinLocally p1)
        with inv show ?thesis by (simp add: palette_prefix_map)
      qed
    qed
  qed
qed (use inv e in \<open>simp_all add: handleGiftSelection_def selectAllGifts_def\<close>)

lemma run_join_palette:
  "length (players s) \<le> 15 \<Longrightarrow> map color (players s) = take (length (players s)) COLORS \<Longrightarrow>
   list_all is_join_or_input es \<Longrightarrow>
   length (players (run es s)) \<le> 15
     \<and> map color (players (run es s)) = take (length (players (run es s))) COLORS"
proof (induction es arbitrary: s)
  case Nil
  then show ?case by simp
next
  case (Cons e es)
  from Cons.prems have e: "is_join_or_input e" and es: "list_all is_join_or_input es" by simp_all
  from step_join_palette [OF Cons.prems(1,2) e] Cons.IH [of "step e s"] es
  show ?case by simp
qed

section \<open>The start of the countdown\<close>






lemma joinLocally_frame:
  "calls (joinLocally now emojis tv s s1) =
     calls s1 @ (case currentGameId s of
                   Some g \<Rightarrow> if find (\<lambda>p. name p = displayName s) (players s) = None
                                 \<and> length (players s) = 1 \<and> g \<noteq> []
                              then [StartGameCountdown g 60] else []
                 | None \<Rightarrow> [])"
  "currentGameId (joinLocally now emojis tv s s1) = currentGameId s1"
  by (simp_all add: joinLocally_def Let_def addToLog_def startGameCountdown_def
      split: option.splits)









section \<open>Colours of the players of a round\<close>

lemma getCurrentGame_calls:
  "\<exists>cs. calls (snd (getCurrentGame rollNo fetched created s)) = calls s @ cs
        \<and> set cs \<subseteq> {CreateGame rollNo}"
  by (auto simp: getCurrentGame_def split: db_result.splits option.splits prod.splits)

lemma joinGameWithGifts_calls:
  "\<exists>cs. calls (snd (joinGameWithGifts g cp sels col pos joined s)) = calls s @ cs
        \<and> set cs \<subseteq> insert (JoinGame g cp sels col pos)
                     (set (map (\<lambda>sel. UpdatePlayerGifts cp (giftId sel) (- selection_quantity sel)) sels))"
  by (auto simp: joinGameWithGifts_def split: db_result.splits)

lemma joinThroughStore_calls:
  "\<exists>cs. calls (snd (joinThroughStore fetched created joined sels tv s)) = calls s @ cs
        \<and> (\<forall>g cp sels' col pos. JoinGame g cp sels' col pos \<in> set cs \<longrightarrow>
               pos = length (players s) \<and> col = COLORS ! (pos mod length COLORS))"
proof (cases "currentPlayer s")
  case None
  then show ?thesis by (simp add: joinThroughStore_def)
next
  case (Some cp)
  obtain gid s1 where g: "(if truthy (currentGameId s) then (currentGameId s, s)
                 else getCurrentGame (rollNumber s) fetched created s) = (gid, s1)"
    by (cases "(if truthy (currentGameId s) then (currentGameId s, s)
                 else getCurrentGame (rollNumber s) fetched created s)")
  then obtain cs1 where c1: "calls s1 = calls s @ cs1" "set cs1 \<subseteq> {CreateGame (rollNumber s)}"
    using getCurrentGame_calls [of "rollNumber s" fetched created s]
    by (auto split: if_splits)
  show ?thesis
  proof (cases gid)
    case None
    with Some g c1 show ?thesis by (auto simp: joinThroughStore_def)
  next
    case (Some gameId)
    obtain part s2 where j: "joinGameWithGifts gameId cp sels
        (COLORS ! (length (players s) mod length COLORS)) (length (players s)) joined s1 = (part, s2)"
      by (cases "joinGameWithGifts gameId cp sels
        (COLORS ! (length (players s) mod length COLORS)) (length (players s)) joined s1")
    then obtain cs2 where c2: "calls s2 = calls s1 @ cs2"
      "set cs2 \<subseteq> insert (JoinGame gameId cp sels
                       (COLORS ! (length (players s) mod length COLORS)) (length (players s)))
                     (set (map (\<lambda>sel. UpdatePlayerGifts cp (giftId sel) (- selection_quantity sel)) sels))"
      using joinGameWithGifts_calls [of gameId cp sels
        "COLORS ! (length (players s) mod length COLORS)" "length (players s)" joined s1]
      by auto
    have ok: "\<forall>g cp' sels' col pos. JoinGame g cp' sels' col pos \<in> set (cs1 @ cs2) \<longrightarrow>
               pos = length (players s) \<and> col = COLORS ! (pos mod length COLORS)"
      using c1(2) c2(2) by auto
    show ?thesis
    proof (cases "gameId = []")
      case True
      with \<open>currentPlayer s = Some cp\<close> Some g c1 show ?thesis
        by (auto simp: joinThroughStore_def)
    next
      case False
      show ?thesis
      proof (cases part)
        case None
        with False \<open>currentPlayer s = Some cp\<close> Some g j
        have "snd (joinThroughStore fetched created joined sels tv s) = s2"
          by (simp add: joinThroughStore_def)
        with c1(1) c2(1) ok show ?thesis
          by (intro exI [of _ "cs1 @ cs2"]) simp
      next
        case (Some participant)
        with False \<open>currentPlayer s = Some cp\<close> \<open>gid = Some gameId\<close> g j
        have "snd (joinThroughStore fetched created joined sels tv s)
              = addGameLog gameId (Some cp) Join (JoinedWithGifts (displayName s) tv) s2"
          by (simp add: joinThroughStore_def)
        with c1(1) c2(1) ok show ?thesis
          by (intro exI [of _ "cs1 @ cs2 @ [AddGameLog gameId (Some cp) Join
                                 (JoinedWithGifts (displayName s) tv)]"])
             (simp add: addGameLog_def)
      qed
    qed
  qed
qed

lemma confirmGiftSelection_join_call:
  "JoinGame g cp sels col pos
     \<in> set (issued s (snd (confirmGiftSelection now fetched created joined s)))
   \<Longrightarrow> pos = length (players s) \<and> col = COLORS ! (pos mod 15)"
proof -
  assume a: "JoinGame g cp sels col pos
     \<in> set (issued s (snd (confirmGiftSelection now fetched created joined s)))"
  show ?thesis
  proof (cases "selectedGifts s = [] \<or> displayName s = [] \<or> length (players s) \<ge> 15")
    case True
    then have "snd (confirmGiftSelection now fetched created joined s) = s"
      by (auto simp: confirmGiftSelection_def)
    with a show ?thesis by (simp add: issued_def)
  next
    case False
    obtain emojis tv gs where gt: "giftTotals (userInventory s) (selectedGifts s) = (emojis, tv, gs)"
      by (cases "giftTotals (userInventory s) (selectedGifts s)")
    obtain r s1 where j: "joinThroughStore fetched created joined gs tv s = (r, s1)"
      by (cases "joinThroughStore fetched created joined gs tv s")
    with joinThroughStore_calls [of fetched created joined gs tv s] obtain cs where
      cs: "calls s1 = calls s @ cs"
          "\<forall>g cp sels' col pos. JoinGame g cp sels' col pos \<in> set cs \<longrightarrow>
               pos = length (players s) \<and> col = COLORS ! (pos mod length COLORS)"
      by auto
    have "JoinGame g cp sels col pos \<in> set cs"
    proof (cases r)
      case (Some rj)
      with False gt j have "snd (confirmGiftSelection now fetched created joined s) = s1"
        by (simp add: confirmGiftSelection_def)
      with a cs(1) show ?thesis by (simp add: issued_def)
    next
      case None
      with False gt j have "snd (confirmGiftSelection now fetched created joined s)
          = joinLocally now emojis tv s s1"
        by (simp add: confirmGiftSelection_def)
      with a cs(1) show ?thesis
        by (auto simp: issued_def joinLocally_frame split: option.splits if_splits)
    qed
    with cs(2) show ?thesis by (simp add: length_COLORS)
  qed
qed

text \<open>
  Claim C10. Start from a round without players and let joins and form input happen, in
  any order and number (\<^verbatim>\<open>addPlayer\<close> of either revision, \<^verbatim>\<open>confirmGiftSelection\<close>, typing,
  selecting gifts),
  with no reset and no replacement of the list in between. Then the round never holds more
  than 15 players, the player at join index \<open>n\<close> has the colour \<open>COLORS[n mod 15]\<close>, and the
  colours of the players are pairwise distinct. In any state, a player that \<^verbatim>\<open>addPlayer\<close>
  adds gets the colour \<open>COLORS[players.length mod 15]\<close>, and a join that
  \<^verbatim>\<open>confirmGiftSelection\<close> sends to the store carries the position \<open>players.length\<close> and
  that colour.
\<close>

theorem join_colors_distinct:
  assumes "players s = []" and "list_all is_join_or_input es"
  shows "length (players (run es s)) \<le> 15
       \<and> (\<forall>n<length (players (run es s)).
             color (players (run es s) ! n) = COLORS ! (n mod 15))
       \<and> distinct (map color (players (run es s)))
       \<and> (addPlayer parseInt now r1 r2 s' = (None, s'') \<longrightarrow>
            (\<exists>p. players s'' = players s' @ [p]
                 \<and> color p = COLORS ! (length (players s') mod 15)))
       \<and> (JoinGame g cp sels col pos
              \<in> set (issued s' (snd (confirmGiftSelection now fetched created joined s')))
            \<longrightarrow> pos = length (players s') \<and> col = COLORS ! (pos mod 15))"
proof -
  let ?ps = "players (run es s)"
  from run_join_palette [of s es] assms
  have inv: "length ?ps \<le> 15" "map color ?ps = take (length ?ps) COLORS" by simp_all
  have idx: "\<forall>n<length ?ps. color (?ps ! n) = COLORS ! (n mod 15)"
  proof (intro allI impI)
    fix n assume n: "n < length ?ps"
    then have "color (?ps ! n) = map color ?ps ! n" by simp
    also have "\<dots> = COLORS ! n" using n inv by (simp add: length_COLORS)
    finally show "color (?ps ! n) = COLORS ! (n mod 15)" using n inv(1) by simp
  qed
  have d: "distinct (map color ?ps)"
    using distinct_COLORS inv(2) by (simp add: distinct_take)
  have a: "addPlayer parseInt now r1 r2 s' = (None, s'') \<longrightarrow>
            (\<exists>p. players s'' = players s' @ [p]
                 \<and> color p = COLORS ! (length (players s') mod 15))"
    using addPlayer_players [of parseInt now r1 r2 s' s''] by (auto simp: length_COLORS)
  have j: "JoinGame g cp sels col pos
              \<in> set (issued s' (snd (confirmGiftSelection now fetched created joined s')))
            \<longrightarrow> pos = length (players s') \<and> col = COLORS ! (pos mod 15)"
    using confirmGiftSelection_join_call [of g cp sels col pos s' now fetched created joined]
    by blast
  from inv(1) idx d a j show ?thesis by blast
qed

lemma example_two_joins:
  "length (players (run [SetPlayerName ''ann'', SetPlayerBalance ''100'',
                         AddPlayer (\<lambda>v. Some 100) 0 0 0,
                         SetPlayerName ''bob'', SetPlayerBalance ''100'',
                         AddPlayer (\<lambda>v. Some 100) 1 0 0] initial_client)) = 2"
  by (simp add: addPlayer_def initial_client_def trim_def is_whitespace_def addToLog_def Let_def)

text \<open>The theorem at two joins after mounting: the first two colours of the palette.\<close>

theorem join_colors_distinct_witness:
  "map color (players (run [SetPlayerName ''ann'', SetPlayerBalance ''100'',
                            AddPlayer (\<lambda>v. Some 100) 0 0 0,
                            SetPlayerName ''bob'', SetPlayerBalance ''100'',
                            AddPlayer (\<lambda>v. Some 100) 1 0 0] initial_client))
     = [''#FF6B6B'', ''#4ECDC4'']"
proof -
  let ?es = "[SetPlayerName ''ann'', SetPlayerBalance ''100'', AddPlayer (\<lambda>v. Some 100) 0 0 0,
              SetPlayerName ''bob'', SetPlayerBalance ''100'', AddPlayer (\<lambda>v. Some 100) 1 0 0]"
  let ?ps = "players (run ?es initial_client)"
  have e: "players initial_client = []" by (simp add: initial_client_def)
  have j: "list_all is_join_or_input ?es" by simp
  have len: "length ?ps = 2" by (rule example_two_joins)
  from join_colors_distinct [OF e j] len
  have c: "color (?ps ! 0) = COLORS ! (0 mod 15)" "color (?ps ! 1) = COLORS ! (1 mod 15)"
    by simp_all
  from len obtain a b where ab: "?ps = [a, b]"
    by (cases ?ps; cases "tl ?ps") auto
  with c have "color a = COLORS ! 0" "color b = COLORS ! 1" by simp_all
  then have "map color [a, b] = [''#FF6B6B'', ''#4ECDC4'']"
    by (simp add: COLORS_def)
  with ab show ?thesis by simp
qed


section \<open>How often a client spins\<close>

lemma getCurrentGame_keeps:
  "isSpinning (snd (getCurrentGame rollNo fetched created s)) = isSpinning s"
  "spinTimeout (snd (getCurrentGame rollNo fetched created s)) = spinTimeout s"
  "resetTimeout (snd (getCurrentGame rollNo fetched created s)) = resetTimeout s"
  "gameCountdown (snd (getCurrentGame rollNo fetched created s)) = gameCountdown s"
  "currentPlayer (snd (getCurrentGame rollNo fetched created s)) = currentPlayer s"
  by (simp_all add: getCurrentGame_def split: db_result.splits option.splits prod.splits)

lemma joinGameWithGifts_keeps:
  "isSpinning (snd (joinGameWithGifts g cp sels col pos joined s)) = isSpinning s"
  "currentGameId (snd (joinGameWithGifts g cp sels col pos joined s)) = currentGameId s"
  "dbPlayers (snd (joinGameWithGifts g cp sels col pos joined s)) = dbPlayers s"
  "gameCountdown (snd (joinGameWithGifts g cp sels col pos joined s)) = gameCountdown s"
  "currentPlayer (snd (joinGameWithGifts g cp sels col pos joined s)) = currentPlayer s"
  by (simp_all add: joinGameWithGifts_def split: db_result.splits)

lemma joinThroughStore_isSpinning:
  "isSpinning (snd (joinThroughStore fetched created joined sels tv s)) = isSpinning s"
proof (cases "currentPlayer s")
  case None
  then show ?thesis by (simp add: joinThroughStore_def)
next
  case (Some cp)
  obtain gid s1 where g: "(if truthy (currentGameId s) then (currentGameId s, s)
                 else getCurrentGame (rollNumber s) fetched created s) = (gid, s1)"
    by (cases "(if truthy (currentGameId s) then (currentGameId s, s)
                 else getCurrentGame (rollNumber s) fetched created s)")
  then have p1: "isSpinning s1 = isSpinning s"
    using getCurrentGame_keeps(1) [of "rollNumber s" fetched created s]
    by (auto split: if_splits)
  show ?thesis
  proof (cases gid)
    case None
    with Some g p1 show ?thesis by (simp add: joinThroughStore_def)
  next
    case (Some gameId)
    obtain part s2 where j: "joinGameWithGifts gameId cp sels
        (COLORS ! (length (players s) mod length COLORS)) (length (players s)) joined s1 = (part, s2)"
      by (cases "joinGameWithGifts gameId cp sels
        (COLORS ! (length (players s) mod length COLORS)) (length (players s)) joined s1")
    then have p2: "isSpinning s2 = isSpinning s1"
      using joinGameWithGifts_keeps(1) [of gameId cp sels
        "COLORS ! (length (players s) mod length COLORS)" "length (players s)" joined s1]
      by simp
    from \<open>currentPlayer s = Some cp\<close> Some g j p1 p2 show ?thesis
      by (simp add: joinThroughStore_def addGameLog_def split: option.splits)
  qed
qed

lemma joinLocally_isSpinning:
  "isSpinning (joinLocally now emojis tv s s1) = isSpinning s1"
  by (simp add: joinLocally_def Let_def addToLog_def startGameCountdown_def split: option.splits)

lemma confirmGiftSelection_isSpinning:
  "isSpinning (snd (confirmGiftSelection now fetched created joined s)) = isSpinning s"
proof -
  obtain emojis tv sels where gt: "giftTotals (userInventory s) (selectedGifts s) = (emojis, tv, sels)"
    by (cases "giftTotals (userInventory s) (selectedGifts s)")
  obtain r s1 where j: "joinThroughStore fetched created joined sels tv s = (r, s1)"
    by (cases "joinThroughStore fetched created joined sels tv s")
  then have "isSpinning s1 = isSpinning s"
    using joinThroughStore_isSpinning [of fetched created joined sels tv s] by simp
  with gt j show ?thesis
    by (simp add: confirmGiftSelection_def joinLocally_isSpinning split: option.splits)
qed

lemma addPlayer_isSpinning:
  "isSpinning (snd (addPlayer parseInt now r1 r2 s)) = isSpinning s"
  "isSpinning (snd (addPlayer_countdown parseInt now r1 r2 s)) = isSpinning s"
proof -
  show a: "isSpinning (snd (addPlayer parseInt now r1 r2 s)) = isSpinning s"
    by (simp add: addPlayer_def Let_def addToLog_def split: option.splits)
  obtain r s1 where "addPlayer parseInt now r1 r2 s = (r, s1)"
    by (cases "addPlayer parseInt now r1 r2 s")
  with a show "isSpinning (snd (addPlayer_countdown parseInt now r1 r2 s)) = isSpinning s"
    by (simp add: addPlayer_countdown_def startGameCountdown_def split: option.splits)
qed

lemma completeGame_isSpinning:
  "isSpinning (snd (completeGame g w ch tv now updated logged s)) = isSpinning s"
  by (simp add: completeGame_def Let_def split: db_result.splits)

lemma spinTimeoutCallback_isSpinning:
  "isSpinning (spinTimeoutCallback now updated logged s) = isSpinning s"
  by (simp add: spinTimeoutCallback_def Let_def addGameLog_def addToLog_def
      completeGame_isSpinning split: option.splits prod.splits)

lemma spinWheel_isSpinning:
  "isSpinning (spinWheel now rnd s) = (isSpinning s \<or> 2 \<le> length (activePlayers s))"
  by (auto simp: spinWheel_def Let_def addGameLog_def addToLog_def split: option.splits)

lemma step_keeps_spinning:
  "\<not> is_reset e \<Longrightarrow> isSpinning s \<Longrightarrow> isSpinning (step e s)"
  by (cases e)
     (simp_all add: handleGiftSelection_def selectAllGifts_def addPlayer_isSpinning
        confirmGiftSelection_isSpinning getCurrentGame_keeps countdownTick_def
        autoSpinEffect_def spinWheel_isSpinning syncPlayersEffect_def
        spinTimeoutCallback_isSpinning split: db_result.splits option.splits)

lemma no_spin_while_spinning:
  "list_all (\<lambda>e. \<not> is_reset e) es \<Longrightarrow> isSpinning s \<Longrightarrow> spin_attempts es s = 0"
proof (induction es arbitrary: s)
  case Nil
  show ?case by simp
next
  case (Cons e es)
  from Cons.prems have "isSpinning (step e s)" by (simp add: step_keeps_spinning)
  with Cons show ?case by simp
qed

lemma at_most_one_spin:
  "list_all (\<lambda>e. \<not> is_reset e) es \<Longrightarrow> spin_attempts es s \<le> 1"
proof (induction es arbitrary: s)
  case Nil
  show ?case by simp
next
  case (Cons e es)
  show ?case
  proof (cases "\<not> isSpinning s \<and> isSpinning (step e s)")
    case True
    with Cons.prems no_spin_while_spinning [of es "step e s"] show ?thesis by simp
  next
    case False
    then have "spin_attempts (e # es) s = spin_attempts es (step e s)" by auto
    with Cons.prems Cons.IH [of "step e s"] show ?thesis by simp
  qed
qed

text \<open>
  Claim C3 as amended. The flag that keeps a client from spinning twice is
  \<^verbatim>\<open>isSpinning\<close>: set when the spin starts, cleared by the reset three seconds after
  settlement. Until that reset runs, whatever else happens (timer ticks that read the
  countdown at zero, runs of the auto-spin effect, joins, notifications, the settlement
  itself), the client makes at most one spin attempt; if the auto-spin effect finds the
  countdown at zero with two or more active players and the flag down, it makes exactly
  one. While the flag is up the auto-spin effect does nothing and \<^verbatim>\<open>spinWheel\<close> draws
  nothing.
\<close>

theorem one_spin_until_reset:
  "(list_all (\<lambda>e. \<not> is_reset e) es \<longrightarrow> spin_attempts es s \<le> 1)
   \<and> (list_all (\<lambda>e. \<not> is_reset e) es \<and> gameCountdown s = Some 0 \<and> \<not> isSpinning s
        \<and> 2 \<le> length (activePlayers s)
       \<longrightarrow> spin_attempts (AutoSpin now rnd # es) s = 1)
   \<and> (isSpinning s \<longrightarrow> autoSpinEffect now rnd s = s \<and> spinWheel now rnd s =
         (if length (activePlayers s) < 2 then addToLog now NeedTwoPlayers Info s else s))"
proof (intro conjI impI)
  assume "list_all (\<lambda>e. \<not> is_reset e) es"
  then show "spin_attempts es s \<le> 1" by (rule at_most_one_spin)
next
  assume h: "list_all (\<lambda>e. \<not> is_reset e) es \<and> gameCountdown s = Some 0 \<and> \<not> isSpinning s
        \<and> 2 \<le> length (activePlayers s)"
  then have "isSpinning (step (AutoSpin now rnd) s)"
    by (simp add: autoSpinEffect_def spinWheel_isSpinning)
  with h no_spin_while_spinning [of es "step (AutoSpin now rnd) s"]
  show "spin_attempts (AutoSpin now rnd # es) s = 1" by simp
next
  assume "isSpinning s"
  then show "autoSpinEffect now rnd s = s" by (simp add: autoSpinEffect_def)
next
  assume "isSpinning s"
  then show "spinWheel now rnd s =
         (if length (activePlayers s) < 2 then addToLog now NeedTwoPlayers Info s else s)"
    by (simp add: spinWheel_def)
qed

text \<open>
  Claim C3 says that a client triggers at most one spin per round, by a flag that is set
  once per round. The flag is cleared by the reset, and neither the countdown nor the
  participants read from the store are: a client without a player of its own, showing the
  game \<open>game1\<close> with two participants, spins when the countdown is read at zero, settles,
  resets, and spins again, both times for \<open>game1\<close> and its two participants. (The round
  is the game of the store, whose roll number is fixed when it is created; the counter
  \<^verbatim>\<open>rollNumber\<close> of the client is local, and the first settlement increments it.)
\<close>

theorem second_spin_after_reset_counterexample:
  "spin_attempts example_replay initial_client = 2
   \<and> currentGameId (run (take 3 example_replay) initial_client) = Some ''game1''
   \<and> currentGameId (run example_replay initial_client) = Some ''game1''
   \<and> dbPlayers (run (take 3 example_replay) initial_client) = [example_first, example_second]
   \<and> dbPlayers (run example_replay initial_client) = [example_first, example_second]
   \<and> rollNumber (run (take 3 example_replay) initial_client) = 8343
   \<and> rollNumber (run example_replay initial_client) = 8344
   \<and> calls (run example_replay initial_client)
       = [AddGameLog ''game1'' None Spin WheelSpinning, AddGameLog ''game1'' None Spin WheelSpinning]"
  by (simp add: example_replay_def initial_client_def getCurrentGame_def countdownTick_def
      autoSpinEffect_def spinWheel_def activePlayers_def totalValue_def playerValue_def
      example_first_def example_second_def addToLog_def addGameLog_def spinTimeoutCallback_def
      resetCallback_def Let_def winnerChance_def)

lemma example_spectator_fields:
  "activePlayers example_spectator = [example_first, example_second]"
  "gameCountdown example_spectator = Some 0"
  "\<not> isSpinning example_spectator"
  "currentGameId example_spectator = Some ''game1''"
  "currentPlayer example_spectator = None"
  "rollNumber example_spectator = 8343"
  "calls example_spectator = []"
  by (simp_all add: activePlayers_def example_spectator_def initial_client_def)

text \<open>
  The theorem at a client showing a game at countdown zero: the effect, a tick, the effect
  again, the settlement and the effect once more make one spin attempt.
\<close>

theorem one_spin_until_reset_witness:
  "spin_attempts [AutoSpin 0 (1 / 2), CountdownTick (DbData (Some 0)), AutoSpin 1 (1 / 2),
                  SpinTimeout 4 (DbData ()) True, AutoSpin 5 (1 / 2)] example_spectator = 1"
proof -
  have "list_all (\<lambda>e. \<not> is_reset e)
          [CountdownTick (DbData (Some 0)), AutoSpin 1 (1 / 2), SpinTimeout 4 (DbData ()) True,
           AutoSpin 5 (1 / 2)]
        \<and> gameCountdown example_spectator = Some 0 \<and> \<not> isSpinning example_spectator
        \<and> 2 \<le> length (activePlayers example_spectator)"
    by (simp add: example_spectator_fields)
  with one_spin_until_reset [of "[CountdownTick (DbData (Some 0)), AutoSpin 1 (1 / 2),
           SpinTimeout 4 (DbData ()) True, AutoSpin 5 (1 / 2)]" example_spectator 0 "1 / 2"]
  show ?thesis by blast
qed


section \<open>Two clients at the end of the countdown\<close>

lemma spinTimeoutCallback_rejected:
  assumes "spinTimeout s = Some c" "closure_selectedWinner c = Some w"
    "closure_currentGameId c = Some g" "g \<noteq> []" "closure_currentPlayer c = Some cp"
    "updated = DbError m \<or> updated = DbThrow m"
  shows "error (spinTimeoutCallback now updated logged s) = Some ''Failed to complete game''"
    and "calls (spinTimeoutCallback now updated logged s) =
          calls s @
          [UpdateGameStatus g ''completed'' cp
             (winnerChance (balance w + giftValue w) (closure_totalValue c))
             (foldl (\<lambda>sum p. sum + giftValue p) 0 (closure_activePlayers c)) now,
           AddGameLog g (Some cp) Winner
             (WonGifts (name w) (foldl (\<lambda>sum p. sum + giftValue p) 0 (closure_activePlayers c)))]"
    and "map entry_winner (matchHistory (spinTimeoutCallback now updated logged s))
          = w # map entry_winner (matchHistory s)"
  using assms
  by (auto simp: spinTimeoutCallback_def Let_def completeGame_def addGameLog_def addToLog_def)

text \<open>
  Claim C4 as amended. The client has no compare-and-set and no locked state. A client
  that finds the countdown at zero, two or more active players and its flag down draws at
  once and locally, from its own random number; the only call before the draw is the log
  entry of the spin. At settlement it writes the completion with
  \<^verbatim>\<open>updateGameStatus(gameId, 'completed', ...)\<close>, naming no expected status. Whatever the
  store answers, the client announces the winner of its own draw; when the write is
  rejected (an error answer or an exception) it records the error state, writes its winner
  log entry all the same, does not repeat the write, and adds its own winner to its match
  history: it does not take over the outcome of another client.
\<close>

theorem each_client_draws_and_keeps_its_winner:
  assumes "gameCountdown s = Some 0" and "\<not> isSpinning s" and "2 \<le> length (activePlayers s)"
    and "currentGameId s = Some g" and "g \<noteq> []" and "currentPlayer s = Some cp"
    and "selectedWinner (rnd * totalValue (activePlayers s)) 0 (activePlayers s) = Some w"
    and "updated = DbError m \<or> updated = DbThrow m"
  shows "map_option closure_selectedWinner (spinTimeout (autoSpinEffect now rnd s)) = Some (Some w)
       \<and> issued s (autoSpinEffect now rnd s) = [AddGameLog g None Spin WheelSpinning]
       \<and> winner (spinTimeoutCallback t (DbData ()) True (autoSpinEffect now rnd s)) = Some w
       \<and> winner (spinTimeoutCallback t updated logged (autoSpinEffect now rnd s)) = Some w
       \<and> map entry_winner (matchHistory (spinTimeoutCallback t updated logged (autoSpinEffect now rnd s)))
           = w # map entry_winner (matchHistory s)
       \<and> error (spinTimeoutCallback t updated logged (autoSpinEffect now rnd s))
           = Some ''Failed to complete game''
       \<and> issued (autoSpinEffect now rnd s)
            (spinTimeoutCallback t updated logged (autoSpinEffect now rnd s))
           = [UpdateGameStatus g ''completed'' cp
                (winnerChance (balance w + giftValue w) (totalValue (activePlayers s)))
                (foldl (\<lambda>sum p. sum + giftValue p) 0 (activePlayers s)) t,
              AddGameLog g (Some cp) Winner
                (WonGifts (name w) (foldl (\<lambda>sum p. sum + giftValue p) 0 (activePlayers s)))]"
proof -
  let ?s1 = "autoSpinEffect now rnd s"
  let ?c = "\<lparr>closure_selectedWinner = Some w,
           closure_activePlayers = activePlayers s,
           closure_totalValue = totalValue (activePlayers s),
           closure_rollNumber = rollNumber s,
           closure_currentGameId = Some g,
           closure_currentPlayer = Some cp\<rparr>"
  have a: "?s1 = spinWheel now rnd s"
    using assms(1-3) by (simp add: autoSpinEffect_def)
  have c: "spinTimeout ?s1 = Some ?c"
    unfolding a using spinWheel_closure [OF assms(3,2), of now rnd] assms(4,6,7) by simp
  have k: "calls ?s1 = calls s @ [AddGameLog g None Spin WheelSpinning]"
    unfolding a using spinWheel_calls [OF assms(3,2), of now rnd] assms(4,5) by simp
  have m: "matchHistory ?s1 = matchHistory s"
    unfolding a using assms(2,3)
    by (simp add: spinWheel_def Let_def addToLog_def addGameLog_def split: option.splits)
  have sel: "closure_selectedWinner ?c = Some w" "closure_currentGameId ?c = Some g"
    "closure_currentPlayer ?c = Some cp" by simp_all
  note rej = spinTimeoutCallback_rejected [OF c sel(1,2) assms(5) sel(3) assms(8), of t logged]
  have 1: "map_option closure_selectedWinner (spinTimeout ?s1) = Some (Some w)"
    using c by simp
  have 2: "issued s ?s1 = [AddGameLog g None Spin WheelSpinning]"
    using k by (simp add: issued_def)
  have 3: "winner (spinTimeoutCallback t (DbData ()) True ?s1) = Some w"
    by (rule spinTimeoutCallback_settles(1) [OF c sel(1,2) assms(5) sel(3)])
  have 4: "winner (spinTimeoutCallback t updated logged ?s1) = Some w"
    by (rule spinTimeoutCallback_settles(1) [OF c sel(1,2) assms(5) sel(3)])
  have 5: "map entry_winner (matchHistory (spinTimeoutCallback t updated logged ?s1))
           = w # map entry_winner (matchHistory s)"
    using rej(3) m by simp
  have 6: "error (spinTimeoutCallback t updated logged ?s1) = Some ''Failed to complete game''"
    by (rule rej(1))
  have 7: "issued ?s1 (spinTimeoutCallback t updated logged ?s1)
           = [UpdateGameStatus g ''completed'' cp
                (winnerChance (balance w + giftValue w) (totalValue (activePlayers s)))
                (foldl (\<lambda>sum p. sum + giftValue p) 0 (activePlayers s)) t,
              AddGameLog g (Some cp) Winner
                (WonGifts (name w) (foldl (\<lambda>sum p. sum + giftValue p) 0 (activePlayers s)))]"
    using rej(2) by (simp add: issued_def)
  from 1 2 3 4 5 6 7 show ?thesis by blast
qed

lemma example_other_client_fields:
  "activePlayers example_other_client = [example_first, example_second]"
  "gameCountdown example_other_client = Some 0"
  "\<not> isSpinning example_other_client"
  "currentGameId example_other_client = Some ''game1''"
  "currentPlayer example_other_client = Some ''you''"
  by (simp_all add: activePlayers_def example_other_client_def example_spectator_def
      initial_client_def)

text \<open>The theorem at the client \<open>you\<close>, whose write the store rejects.\<close>

theorem each_client_draws_and_keeps_its_winner_witness:
  "winner (spinTimeoutCallback 4 (DbError ''conflict'') True
             (autoSpinEffect 0 (1 / 2) example_other_client)) = Some example_second
   \<and> error (spinTimeoutCallback 4 (DbError ''conflict'') True
             (autoSpinEffect 0 (1 / 2) example_other_client)) = Some ''Failed to complete game''"
proof -
  have w: "selectedWinner (1 / 2 * totalValue (activePlayers example_other_client)) 0
             (activePlayers example_other_client) = Some example_second"
    by (simp only: example_other_client_fields example_draw)
  have l: "2 \<le> length (activePlayers example_other_client)"
    by (simp add: example_other_client_fields)
  have c: "''game1'' \<noteq> []" by simp
  have u: "DbError ''conflict'' = DbError ''conflict'' \<or> (DbError ''conflict'' :: unit db_result) = DbThrow ''conflict''"
    by simp
  from each_client_draws_and_keeps_its_winner
         [OF example_other_client_fields(2,3) l example_other_client_fields(4) c
             example_other_client_fields(5) w u, of 0 4 True]
  show ?thesis by blast
qed

text \<open>
  Claim C4 says that one client wins the race, that the draw is made once per round, and
  that the others take over its outcome. Two clients show the same game at countdown
  zero; each makes a spin attempt and draws with its own random number (0.05 and 0.5). The
  first settles with the store accepting its write and announces the first participant;
  the second, whose write the store rejects, announces the second participant.
\<close>

theorem two_clients_two_draws_counterexample:
  "currentGameId example_db_client = currentGameId example_other_client
   \<and> spin_attempts [AutoSpin 0 (1 / 20)] example_db_client = 1
   \<and> spin_attempts [AutoSpin 0 (1 / 2)] example_other_client = 1
   \<and> winner (run [AutoSpin 0 (1 / 20), SpinTimeout 4 (DbData ()) True] example_db_client)
       = Some example_first
   \<and> winner (run [AutoSpin 0 (1 / 2), SpinTimeout 4 (DbError ''conflict'') True]
               example_other_client)
       = Some example_second
   \<and> example_first \<noteq> example_second"
  by (simp add: example_db_client_def example_other_client_def example_spectator_def
      initial_client_def autoSpinEffect_def spinWheel_def activePlayers_def totalValue_def
      playerValue_def example_first_def example_second_def addToLog_def addGameLog_def
      spinTimeoutCallback_def completeGame_def Let_def winnerChance_def)


section \<open>A join whose write to the store fails\<close>









end
